theory Spec2Isabelle
  imports Complex_Main "HOL-Library.Sublist"
begin

section \<open>JavaScript values used by converter.js\<close>

text \<open>
  A JavaScript number is NaN, one of the two infinities, or a finite value. Finite values
  are modelled as exact reals: rounding to binary64, overflow to an infinity and the sign
  of zero are not modelled. The inputs evaluated below for parsing, merging and printing
  use values that binary64 represents exactly (35.5, 139.5, 100, whole seconds), so the
  results are those of the program; the distances evaluated for the speed filter are 0
  and half the circumference of the Earth, far from the caps on either side.
\<close>

datatype jsnum = NaN | PInf | NInf | Fin real

fun num_neg :: "jsnum \<Rightarrow> jsnum" where
  "num_neg NaN = NaN"
| "num_neg PInf = NInf"
| "num_neg NInf = PInf"
| "num_neg (Fin a) = Fin (- a)"

fun num_add :: "jsnum \<Rightarrow> jsnum \<Rightarrow> jsnum" where
  "num_add (Fin a) (Fin b) = Fin (a + b)"
| "num_add (Fin a) PInf = PInf"
| "num_add (Fin a) NInf = NInf"
| "num_add (Fin a) NaN = NaN"
| "num_add PInf (Fin b) = PInf"
| "num_add PInf PInf = PInf"
| "num_add PInf NInf = NaN"
| "num_add PInf NaN = NaN"
| "num_add NInf (Fin b) = NInf"
| "num_add NInf NInf = NInf"
| "num_add NInf PInf = NaN"
| "num_add NInf NaN = NaN"
| "num_add NaN _ = NaN"

definition num_sub :: "jsnum \<Rightarrow> jsnum \<Rightarrow> jsnum" where
  "num_sub a b = num_add a (num_neg b)"

text \<open>The product \<^verbatim>\<open>a * b\<close>: zero times an infinity is NaN.\<close>

fun num_mul :: "jsnum \<Rightarrow> jsnum \<Rightarrow> jsnum" where
  "num_mul (Fin a) (Fin b) = Fin (a * b)"
| "num_mul PInf (Fin b) = (if b = 0 then NaN else if 0 < b then PInf else NInf)"
| "num_mul NInf (Fin b) = (if b = 0 then NaN else if 0 < b then NInf else PInf)"
| "num_mul (Fin a) PInf = (if a = 0 then NaN else if 0 < a then PInf else NInf)"
| "num_mul (Fin a) NInf = (if a = 0 then NaN else if 0 < a then NInf else PInf)"
| "num_mul PInf PInf = PInf"
| "num_mul PInf NInf = NInf"
| "num_mul NInf PInf = NInf"
| "num_mul NInf NInf = PInf"
| "num_mul NaN _ = NaN"
| "num_mul (Fin a) NaN = NaN"
| "num_mul PInf NaN = NaN"
| "num_mul NInf NaN = NaN"

fun num_div :: "jsnum \<Rightarrow> jsnum \<Rightarrow> jsnum" where
  "num_div (Fin a) (Fin b) =
     (if b = 0 then (if a = 0 then NaN else if 0 < a then PInf else NInf)
      else Fin (a / b))"
| "num_div (Fin a) PInf = Fin 0"
| "num_div (Fin a) NInf = Fin 0"
| "num_div (Fin a) NaN = NaN"
| "num_div PInf (Fin b) = (if 0 \<le> b then PInf else NInf)"
| "num_div NInf (Fin b) = (if 0 \<le> b then NInf else PInf)"
| "num_div PInf PInf = NaN"
| "num_div PInf NInf = NaN"
| "num_div PInf NaN = NaN"
| "num_div NInf PInf = NaN"
| "num_div NInf NInf = NaN"
| "num_div NInf NaN = NaN"
| "num_div NaN _ = NaN"

text \<open>\<^verbatim>\<open>Math.floor\<close>.\<close>

fun num_floor :: "jsnum \<Rightarrow> jsnum" where
  "num_floor (Fin a) = Fin (of_int \<lfloor>a\<rfloor>)"
| "num_floor PInf = PInf"
| "num_floor NInf = NInf"
| "num_floor NaN = NaN"

text \<open>The comparison \<^verbatim>\<open>a < b\<close>: false as soon as one side is NaN.\<close>

fun num_lt :: "jsnum \<Rightarrow> jsnum \<Rightarrow> bool" where
  "num_lt (Fin a) (Fin b) = (a < b)"
| "num_lt (Fin a) PInf = True"
| "num_lt (Fin a) NInf = False"
| "num_lt (Fin a) NaN = False"
| "num_lt NInf (Fin b) = True"
| "num_lt NInf PInf = True"
| "num_lt NInf NInf = False"
| "num_lt NInf NaN = False"
| "num_lt PInf _ = False"
| "num_lt NaN _ = False"

definition num_gt :: "jsnum \<Rightarrow> jsnum \<Rightarrow> bool" where
  "num_gt a b = num_lt b a"

definition isNaN :: "jsnum \<Rightarrow> bool" where
  "isNaN x = (x = NaN)"

section \<open>String operations\<close>

text \<open>
  Strings are lists of one-byte characters. The white space that \<^verbatim>\<open>trim\<close>,
  \<^verbatim>\<open>parseInt\<close> and \<^verbatim>\<open>parseFloat\<close> skip is the ASCII part of JavaScript's
  white space and line terminators: TAB, LF, VT, FF, CR and SPACE.
\<close>

definition isWhite :: "char \<Rightarrow> bool" where
  "isWhite c = (c \<in> set [CHR 0x09, CHR 0x0A, CHR 0x0B, CHR 0x0C, CHR 0x0D, CHR 0x20])"

definition js_trim :: "string \<Rightarrow> string" where
  "js_trim s = rev (dropWhile isWhite (rev (dropWhile isWhite s)))"

text \<open>\<^verbatim>\<open>s.split(c)\<close> for a one-character separator: never the empty list.\<close>

fun js_split :: "char \<Rightarrow> string \<Rightarrow> string list" where
  "js_split c [] = [[]]"
| "js_split c (x # xs) =
     (if x = c then [] # js_split c xs
      else (case js_split c xs of p # ps \<Rightarrow> (x # p) # ps | [] \<Rightarrow> [[x]]))"

text \<open>\<^verbatim>\<open>s.substring(a, b)\<close> and \<^verbatim>\<open>s.substring(a)\<close>: indices are clamped to the
  length, and the two-argument form swaps them when \<open>b < a\<close>.\<close>

definition substring :: "string \<Rightarrow> nat \<Rightarrow> nat \<Rightarrow> string" where
  "substring s a b = take (max a b - min a b) (drop (min a b) s)"

definition substringFrom :: "string \<Rightarrow> nat \<Rightarrow> string" where
  "substringFrom s a = drop a s"

definition isDigit :: "char \<Rightarrow> bool" where
  "isDigit c = (c \<in> set ''0123456789'')"

text \<open>The value of a decimal digit: its position in the row of digits. It is applied to
  digits only.\<close>

definition digitVal :: "char \<Rightarrow> nat" where
  "digitVal c = length (takeWhile (\<lambda>d. d \<noteq> c) ''0123456789'')"

text \<open>The value of a digit string, most significant digit first.\<close>

definition digitsVal :: "string \<Rightarrow> nat" where
  "digitsVal ds = foldl (\<lambda>n c. 10 * n + digitVal c) 0 ds"

text \<open>An optional sign in front of a numeric literal: the sign and the rest.\<close>

fun takeSign :: "string \<Rightarrow> bool \<times> string" where
  "takeSign (c # r) =
     (if c = CHR ''-'' then (True, r) else if c = CHR ''+'' then (False, r)
      else (False, c # r))"
| "takeSign [] = (False, [])"

text \<open>
  \<^verbatim>\<open>parseInt(s, 10)\<close>: leading white space, an optional sign, then the longest run of
  decimal digits; NaN when there is no digit.
\<close>

definition parseInt :: "string \<Rightarrow> jsnum" where
  "parseInt s =
     (let (neg, u) = takeSign (dropWhile isWhite s);
          ds = takeWhile isDigit u
      in if ds = [] then NaN
         else Fin (if neg then - real (digitsVal ds) else real (digitsVal ds)))"

text \<open>
  The exponent part of a decimal literal, \<^verbatim>\<open>e\<close> or \<^verbatim>\<open>E\<close>, an optional sign and at
  least one digit; 0 when the text does not start with a complete exponent part.
\<close>

fun exponentPart :: "string \<Rightarrow> int" where
  "exponentPart (c # r) =
     (if c = CHR ''e'' \<or> c = CHR ''E'' then
        (let (neg, u) = takeSign r; ds = takeWhile isDigit u
         in if ds = [] then 0
            else if neg then - int (digitsVal ds) else int (digitsVal ds))
      else 0)"
| "exponentPart [] = 0"

definition scale10 :: "real \<Rightarrow> int \<Rightarrow> real" where
  "scale10 m e = (if 0 \<le> e then m * 10 ^ nat e else m / 10 ^ nat (- e))"

text \<open>
  \<^verbatim>\<open>parseFloat(s)\<close>: leading white space, then the longest prefix that is a
  \<^verbatim>\<open>StrDecimalLiteral\<close>: an optional sign, then \<^verbatim>\<open>Infinity\<close>, or digits with an
  optional fraction and exponent, or a fraction that starts with the point. NaN when no
  prefix is such a literal.
\<close>

definition parseFloat :: "string \<Rightarrow> jsnum" where
  "parseFloat s =
     (let (neg, u) = takeSign (dropWhile isWhite s)
      in if prefix ''Infinity'' u then (if neg then NInf else PInf)
         else
           (let ip = takeWhile isDigit u;
                r1 = dropWhile isDigit u;
                (fp, r2) = (case r1 of
                              c # r \<Rightarrow> if c = CHR ''.''
                                       then (takeWhile isDigit r, dropWhile isDigit r)
                                       else ([], r1)
                            | [] \<Rightarrow> ([], r1))
            in if ip = [] \<and> fp = [] then NaN
               else
                 (let m = scale10 (real (digitsVal (ip @ fp))) (- int (length fp) + exponentPart r2)
                  in Fin (if neg then - m else m))))"

section \<open>Coordinate decoder\<close>

text \<open>
  \<^verbatim>\<open>parseNmeaCoordinate\<close>. \<open>None\<close> is \<^verbatim>\<open>null\<close>. The fields come from
  \<^verbatim>\<open>split\<close>, so they are strings, and \<^verbatim>\<open>!coordStr\<close> holds for the empty string only.
  Nothing in the body of the \<^verbatim>\<open>try\<close> can throw on strings, so its \<^verbatim>\<open>catch\<close> branch
  has no counterpart here.
\<close>

definition parseNmeaCoordinate :: "string \<Rightarrow> string \<Rightarrow> jsnum option" where
  "parseNmeaCoordinate coordStr direction =
     (if coordStr = [] \<or> direction = [] then None
      else
        (let (degrees, minutes) =
               (if direction = ''N'' \<or> direction = ''S''
                then (parseInt (substring coordStr 0 2), parseFloat (substringFrom coordStr 2))
                else (parseInt (substring coordStr 0 3), parseFloat (substringFrom coordStr 3)));
             decimal = num_add degrees (num_div minutes (Fin 60))
         in Some (if direction = ''S'' \<or> direction = ''W'' then num_neg decimal else decimal)))"

section \<open>Dates\<close>

text \<open>
  A \<^verbatim>\<open>Date\<close> object holds a time value: a whole number of milliseconds since
  1970-01-01T00:00:00Z, or NaN (an invalid date).
\<close>

datatype jsdate = InvalidDate | DateMs int

fun getTime :: "jsdate \<Rightarrow> jsnum" where
  "getTime InvalidDate = NaN"
| "getTime (DateMs t) = Fin (of_int t)"

text \<open>\<^verbatim>\<open>ToIntegerOrInfinity\<close> on a finite number: truncation towards zero.\<close>

definition toInteger :: "real \<Rightarrow> int" where
  "toInteger r = (if 0 \<le> r then \<lfloor>r\<rfloor> else \<lceil>r\<rceil>)"

text \<open>\<^verbatim>\<open>new Date(tv)\<close> for a number: \<^verbatim>\<open>TimeClip\<close> keeps a finite time value of
  magnitude at most 8.64e15 and truncates it.\<close>

fun newDate :: "jsnum \<Rightarrow> jsdate" where
  "newDate (Fin r) = (if 8640000000000000 < \<bar>r\<bar> then InvalidDate else DateMs (toInteger r))"
| "newDate PInf = InvalidDate"
| "newDate NInf = InvalidDate"
| "newDate NaN = InvalidDate"

text \<open>The day number of 1 January of a year, and leap years (ECMAScript \<^verbatim>\<open>DayFromYear\<close>,
  \<^verbatim>\<open>InLeapYear\<close>).\<close>

definition dayFromYear :: "int \<Rightarrow> int" where
  "dayFromYear y =
     365 * (y - 1970) + (y - 1969) div 4 - (y - 1901) div 100 + (y - 1601) div 400"

definition inLeapYear :: "int \<Rightarrow> bool" where
  "inLeapYear y = ((y mod 4 = 0 \<and> y mod 100 \<noteq> 0) \<or> y mod 400 = 0)"

text \<open>The day within the year on which month \<open>mn\<close> (0 to 11) starts.\<close>

definition monthStart :: "bool \<Rightarrow> int \<Rightarrow> int" where
  "monthStart leap mn =
     [0, 31, 59, 90, 120, 151, 181, 212, 243, 273, 304, 334] ! nat mn
       + (if leap \<and> 2 \<le> mn then 1 else 0)"

text \<open>\<^verbatim>\<open>MakeDay\<close>: months beyond 0..11 carry into the year, and the day of the month
  is added as an offset, so day 0 is the last day of the month before.\<close>

definition makeDay :: "int \<Rightarrow> int \<Rightarrow> int \<Rightarrow> int" where
  "makeDay year month date =
     (let ym = year + month div 12; mn = month mod 12
      in dayFromYear ym + monthStart (inLeapYear ym) mn + date - 1)"

definition makeTime :: "int \<Rightarrow> int \<Rightarrow> int \<Rightarrow> int" where
  "makeTime hour minute sec = hour * 3600000 + minute * 60000 + sec * 1000"

text \<open>
  \<^verbatim>\<open>Date.UTC(year, month, day, hours, minutes, seconds)\<close>: NaN when an argument is not
  finite; a year from 0 to 99 means 1900 + year; out-of-range fields are not rejected,
  they carry over. The result is clipped to the range of time values.
\<close>

fun dateUTC :: "jsnum \<Rightarrow> jsnum \<Rightarrow> jsnum \<Rightarrow> jsnum \<Rightarrow> jsnum \<Rightarrow> jsnum \<Rightarrow> jsnum" where
  "dateUTC (Fin y) (Fin m) (Fin d) (Fin h) (Fin mi) (Fin s) =
     (let yi = toInteger y;
          yr = (if 0 \<le> yi \<and> yi \<le> 99 then 1900 + yi else yi);
          tv = makeDay yr (toInteger m) (toInteger d) * 86400000
                 + makeTime (toInteger h) (toInteger mi) (toInteger s)
      in if 8640000000000000 < \<bar>tv\<bar> then NaN else Fin (of_int tv))"
| "dateUTC _ _ _ _ _ _ = NaN"

text \<open>The civil date (year, month 1..12, day 1..31) of a day number: the inverse of
  \<open>makeDay\<close> on the proleptic Gregorian calendar, computed on 400-year eras that start
  on 1 March.\<close>

definition civilFromDays :: "int \<Rightarrow> int \<times> int \<times> int" where
  "civilFromDays day =
     (let z = day + 719468;
          era = z div 146097;
          doe = z mod 146097;
          yoe = (doe - doe div 1460 + doe div 36524 - doe div 146096) div 365;
          doy = doe - (365 * yoe + yoe div 4 - yoe div 100);
          mp = (5 * doy + 2) div 153;
          d = doy - (153 * mp + 2) div 5 + 1;
          m = (if mp < 10 then mp + 3 else mp - 9);
          y = yoe + era * 400
      in (if m \<le> 2 then y + 1 else y, m, d))"

definition digitChar :: "nat \<Rightarrow> char" where
  "digitChar d = ''0123456789'' ! d"

fun natDigits :: "nat \<Rightarrow> string" where
  "natDigits n = (if n < 10 then [digitChar n] else natDigits (n div 10) @ [digitChar (n mod 10)])"

declare natDigits.simps [simp del]

text \<open>Zeros in front, up to a width.\<close>

function padLeft :: "nat \<Rightarrow> string \<Rightarrow> string" where
  "padLeft n s = (if length s < n then padLeft n (CHR ''0'' # s) else s)"
  by pat_completeness auto
termination
  by (relation "measure (\<lambda>(n, s). n - length s)") auto

declare padLeft.simps [simp del]

datatype error = NoValidPoints | NoPointsAfterFiltering | RangeError

text \<open>
  \<^verbatim>\<open>toISOString\<close>: throws a RangeError on an invalid date; otherwise
  \<^verbatim>\<open>YYYY-MM-DDTHH:mm:ss.sssZ\<close>, the year with four digits from 0 to 9999 and with a
  sign and six digits outside.
\<close>

fun toISOString :: "jsdate \<Rightarrow> error + string" where
  "toISOString InvalidDate = Inl RangeError"
| "toISOString (DateMs t) =
     (let (y, m, d) = civilFromDays (t div 86400000);
          ms = t mod 86400000;
          year = (if 0 \<le> y \<and> y \<le> 9999 then padLeft 4 (natDigits (nat y))
                  else (if y < 0 then ''-'' else ''+'') @ padLeft 6 (natDigits (nat \<bar>y\<bar>)))
      in Inr (year @ ''-'' @ padLeft 2 (natDigits (nat m)) @ ''-'' @ padLeft 2 (natDigits (nat d))
              @ ''T'' @ padLeft 2 (natDigits (nat (ms div 3600000)))
              @ '':'' @ padLeft 2 (natDigits (nat (ms div 60000 mod 60)))
              @ '':'' @ padLeft 2 (natDigits (nat (ms div 1000 mod 60)))
              @ ''.'' @ padLeft 3 (natDigits (nat (ms mod 1000))) @ ''Z''))"

text \<open>
  \<^verbatim>\<open>x.toFixed(f)\<close>: the decimal digits of the integer nearest to \<open>x * 10 ^ f\<close>, the
  larger one on a tie, with the point before the last \<open>f\<close> digits. A magnitude of 1e21
  or more is printed by JavaScript in exponent notation with the shortest digits that
  read back as the same binary64 value, which exact reals cannot express: the model
  prints fixed notation there too, and nothing below evaluates that case.
\<close>

fun toFixed :: "jsnum \<Rightarrow> nat \<Rightarrow> string" where
  "toFixed NaN f = ''NaN''"
| "toFixed PInf f = ''Infinity''"
| "toFixed NInf f = ''-Infinity''"
| "toFixed (Fin r) f =
     (let n = nat \<lfloor>\<bar>r\<bar> * 10 ^ f + 1 / 2\<rfloor>;
          m = padLeft (f + 1) (natDigits n);
          k = length m
      in (if r < 0 then ''-'' else [])
           @ (if f = 0 then m else take (k - f) m @ ''.'' @ drop (k - f) m))"

text \<open>The two printing functions are unfolded on request only.\<close>

declare toISOString.simps(2) [simp del]

declare toFixed.simps(4) [simp del]

section \<open>Time decoder\<close>

text \<open>
  \<^verbatim>\<open>parseNmeaTime\<close>. \<open>None\<close> is \<^verbatim>\<open>null\<close>, which only the \<^verbatim>\<open>catch\<close> branch
  returns; no operation of the \<^verbatim>\<open>try\<close> body throws on strings, so the function always
  returns a \<^verbatim>\<open>Date\<close> object, an invalid one when a field does not parse.
\<close>

definition parseNmeaTime :: "string \<Rightarrow> string \<Rightarrow> jsdate option" where
  "parseNmeaTime timeStr dateStr =
     (let hours = parseInt (substring timeStr 0 2);
          minutes = parseInt (substring timeStr 2 4);
          seconds = parseFloat (substringFrom timeStr 4);
          day = parseInt (substring dateStr 0 2);
          month = num_sub (parseInt (substring dateStr 2 4)) (Fin 1);
          year = num_add (Fin 2000) (parseInt (substring dateStr 4 6))
      in Some (newDate (dateUTC year month day hours minutes (num_floor seconds))))"

section \<open>Distance\<close>

definition toRad :: "real \<Rightarrow> real" where
  "toRad angle = angle * (pi / 180)"

text \<open>\<^verbatim>\<open>Math.atan2(y, x)\<close> on finite arguments.\<close>

definition atan2 :: "real \<Rightarrow> real \<Rightarrow> real" where
  "atan2 y x =
     (if 0 < x then arctan (y / x)
      else if x < 0 then (if 0 \<le> y then arctan (y / x) + pi else arctan (y / x) - pi)
      else if 0 < y then pi / 2
      else if y < 0 then - (pi / 2)
      else 0)"

text \<open>The haversine formula of \<^verbatim>\<open>getDistance\<close>, in exact real arithmetic.\<close>

definition haversineKm :: "real \<Rightarrow> real \<Rightarrow> real \<Rightarrow> real \<Rightarrow> real" where
  "haversineKm lat1 lon1 lat2 lon2 =
     (let R = 6371;
          dLat = toRad (lat2 - lat1);
          dLon = toRad (lon2 - lon1);
          a = sin (dLat / 2) * sin (dLat / 2)
                + cos (toRad lat1) * cos (toRad lat2) * sin (dLon / 2) * sin (dLon / 2);
          c = 2 * atan2 (sqrt a) (sqrt (1 - a))
      in R * c)"

text \<open>
  \<^verbatim>\<open>getDistance\<close>. Each of the four arguments goes through a subtraction and a sine or
  cosine, so one argument that is NaN or infinite makes the result NaN.
\<close>

fun getDistance :: "jsnum \<Rightarrow> jsnum \<Rightarrow> jsnum \<Rightarrow> jsnum \<Rightarrow> jsnum" where
  "getDistance (Fin lat1) (Fin lon1) (Fin lat2) (Fin lon2) = Fin (haversineKm lat1 lon1 lat2 lon2)"
| "getDistance _ _ _ _ = NaN"

section \<open>Sentence parser\<close>

text \<open>
  The object that \<^verbatim>\<open>parseNmeaSentence\<close> returns has one of two shapes: from an RMC
  sentence the fields status, time, lat and lon (lat and lon are numbers, possibly NaN,
  never \<^verbatim>\<open>null\<close>), from a GGA sentence the fields status, alt and time. The tests
  \<^verbatim>\<open>data.lat !== undefined\<close> and \<^verbatim>\<open>data.alt !== undefined\<close> of the caller tell the
  two shapes apart.
\<close>

datatype data =
    Rmc (status: string) (rmc_time: jsdate) (rmc_lat: jsnum) (rmc_lon: jsnum)
  | Gga (status: string) (gga_alt: jsnum) (gga_time: jsdate)

text \<open>The field \<^verbatim>\<open>data.time\<close>, which both shapes have.\<close>

fun data_time :: "data \<Rightarrow> jsdate" where
  "data_time (Rmc st t la lo) = t"
| "data_time (Gga st a t) = t"

text \<open>The time of a GGA sentence: its time of day on the fixed date
  \<^verbatim>\<open>Date.UTC(0, 0, 0, ...)\<close>.\<close>

definition ggaTime :: "string \<Rightarrow> jsdate" where
  "ggaTime timeStr =
     newDate (dateUTC (Fin 0) (Fin 0) (Fin 0)
                (parseInt (substring timeStr 0 2))
                (parseInt (substring timeStr 2 4))
                (num_floor (parseFloat (substringFrom timeStr 4))))"

definition parseNmeaSentence :: "string \<Rightarrow> data option" where
  "parseNmeaSentence line =
     (let parts = js_split CHR '','' line;
          sentenceType = substringFrom (parts ! 0) 3
      in if sentenceType = ''RMC'' then
           (if length parts < 10 then None
            else
              (let timeStr = parts ! 1;
                   status = parts ! 2;
                   latStr = parts ! 3;
                   latDir = parts ! 4;
                   lonStr = parts ! 5;
                   lonDir = parts ! 6;
                   dateStr = parts ! 9
               in case (parseNmeaTime timeStr dateStr,
                        parseNmeaCoordinate latStr latDir,
                        parseNmeaCoordinate lonStr lonDir) of
                    (Some t, Some la, Some lo) \<Rightarrow>
                      Some (Rmc (if status = ''A'' then ''Valid'' else ''Invalid'') t la lo)
                  | _ \<Rightarrow> None))
         else if sentenceType = ''GGA'' then
           (if length parts < 10 then None
            else
              (let a = parseFloat (parts ! 9);
                   timeStr = parts ! 1
               in if isNaN a then None else Some (Gga ''Invalid'' a (ggaTime timeStr))))
         else None)"

section \<open>Point merger\<close>

text \<open>
  A \<^verbatim>\<open>Map\<close> is a list of entries in insertion order. \<^verbatim>\<open>set\<close> on a key that is
  present replaces the value and keeps the position. Keys are compared by
  \<^verbatim>\<open>SameValueZero\<close>, under which NaN equals NaN: so does \<open>=\<close> on \<open>jsnum\<close>.
\<close>

type_synonym ('k, 'v) jsmap = "('k \<times> 'v) list"

fun mapSet :: "'k \<Rightarrow> 'v \<Rightarrow> ('k, 'v) jsmap \<Rightarrow> ('k, 'v) jsmap" where
  "mapSet k v [] = [(k, v)]"
| "mapSet k v ((k', v') # m) = (if k' = k then (k, v) # m else (k', v') # mapSet k v m)"

definition mapGet :: "('k, 'v) jsmap \<Rightarrow> 'k \<Rightarrow> 'v option" where
  "mapGet m k = map_of m k"

record point =
  lat :: jsnum
  lon :: jsnum
  time :: jsdate
  alt :: "jsnum option"

definition timeKeyOf :: "jsdate \<Rightarrow> jsnum" where
  "timeKeyOf t = num_floor (num_div (getTime t) (Fin 1000))"

text \<open>One turn of the first loop of \<^verbatim>\<open>convertToGpx\<close>, on the pair of maps
  (\<^verbatim>\<open>rmcPoints\<close>, \<^verbatim>\<open>ggaAlts\<close>).\<close>

definition mergeStep ::
  "(jsnum, data) jsmap \<times> (jsnum, jsnum) jsmap \<Rightarrow> string
     \<Rightarrow> (jsnum, data) jsmap \<times> (jsnum, jsnum) jsmap" where
  "mergeStep maps line =
     (case parseNmeaSentence (js_trim line) of
        None \<Rightarrow> maps
      | Some d \<Rightarrow>
          (let timeKey = timeKeyOf (data_time d)
           in case d of
                Rmc st t la lo \<Rightarrow>
                  if st = ''Valid'' then (mapSet timeKey d (fst maps), snd maps) else maps
              | Gga st a t \<Rightarrow> (fst maps, mapSet timeKey a (snd maps))))"

definition mergeLines :: "string list \<Rightarrow> (jsnum, data) jsmap \<times> (jsnum, jsnum) jsmap" where
  "mergeLines lines = foldl mergeStep ([], []) lines"

text \<open>The second loop: one combined point for each entry of \<^verbatim>\<open>rmcPoints\<close>.\<close>

definition combinePoints :: "(jsnum, data) jsmap \<times> (jsnum, jsnum) jsmap \<Rightarrow> point list" where
  "combinePoints maps =
     map (\<lambda>(timeKey, rmc).
            \<lparr>lat = rmc_lat rmc, lon = rmc_lon rmc, time = rmc_time rmc,
             alt = mapGet (snd maps) timeKey\<rparr>)
         (fst maps)"

text \<open>
  \<^verbatim>\<open>combinedPoints.sort((a, b) => a.time - b.time)\<close>. The sort is stable and a NaN from
  the comparator counts as 0. When every time is valid the result is the one stable
  arrangement in ascending time, which this insertion sort computes; with an invalid date
  among the points the order is left to the implementation.
\<close>

definition compareTime :: "point \<Rightarrow> point \<Rightarrow> jsnum" where
  "compareTime a b = num_sub (getTime (time a)) (getTime (time b))"

fun insertByTime :: "point \<Rightarrow> point list \<Rightarrow> point list" where
  "insertByTime x [] = [x]"
| "insertByTime x (y # ys) =
     (if num_gt (compareTime x y) (Fin 0) then y # insertByTime x ys else x # y # ys)"

definition sortByTime :: "point list \<Rightarrow> point list" where
  "sortByTime ps = foldr insertByTime ps []"

section \<open>Filter pipeline\<close>

text \<open>
  The bounds: \<^verbatim>\<open>parseJstToUtc\<close>. The text of a bound gets the suffix \<^verbatim>\<open> GMT+0900\<close> and
  goes to \<^verbatim>\<open>new Date(string)\<close>, whose reading of such a text ECMAScript leaves to the
  implementation: the host's parser is the parameter \<open>dateParse\<close>. An empty text and
  an invalid result both mean no bound.
\<close>

definition parseJstToUtc :: "(string \<Rightarrow> jsdate) \<Rightarrow> string \<Rightarrow> jsdate option" where
  "parseJstToUtc dateParse timeStr =
     (if timeStr = [] then None
      else (let date = dateParse (timeStr @ '' GMT+0900'')
            in if isNaN (getTime date) then None else Some date))"

definition maxSpeedOf :: "string \<Rightarrow> jsnum" where
  "maxSpeedOf speedFilterType =
     (if speedFilterType = ''10'' then Fin 10
      else if speedFilterType = ''100'' then Fin 100
      else PInf)"

text \<open>The two tests of the time window: the point lies strictly before the start, or
  strictly after the end. A bound that is not set tests nothing.\<close>

fun beforeStart :: "jsdate option \<Rightarrow> point \<Rightarrow> bool" where
  "beforeStart None p = False"
| "beforeStart (Some startTimeUtc) p = num_lt (getTime (time p)) (getTime startTimeUtc)"

fun afterEnd :: "jsdate option \<Rightarrow> point \<Rightarrow> bool" where
  "afterEnd None p = False"
| "afterEnd (Some endTimeUtc) p = num_gt (getTime (time p)) (getTime endTimeUtc)"

text \<open>The quantities of the speed test between the last accepted point and the current
  one.\<close>

definition distanceKm :: "point \<Rightarrow> point \<Rightarrow> jsnum" where
  "distanceKm lastPoint currentPoint =
     getDistance (lat lastPoint) (lon lastPoint) (lat currentPoint) (lon currentPoint)"

definition timeDiffSec :: "point \<Rightarrow> point \<Rightarrow> jsnum" where
  "timeDiffSec lastPoint currentPoint =
     num_div (num_sub (getTime (time currentPoint)) (getTime (time lastPoint))) (Fin 1000)"

definition speedKmh :: "point \<Rightarrow> point \<Rightarrow> jsnum" where
  "speedKmh lastPoint currentPoint =
     num_mul (num_div (distanceKm lastPoint currentPoint) (timeDiffSec lastPoint currentPoint))
       (Fin 3600)"

text \<open>The speed test rejects the current point: there is a last accepted point, time
  has passed, the distance is positive and the speed is above the cap.\<close>

fun tooFast :: "jsnum \<Rightarrow> point option \<Rightarrow> point \<Rightarrow> bool" where
  "tooFast maxSpeedKmh None currentPoint = False"
| "tooFast maxSpeedKmh (Some lastPoint) currentPoint =
     (num_gt (timeDiffSec lastPoint currentPoint) (Fin 0)
      \<and> num_gt (distanceKm lastPoint currentPoint) (Fin 0)
      \<and> num_gt (speedKmh lastPoint currentPoint) maxSpeedKmh)"

text \<open>The filter loop: the result is \<^verbatim>\<open>filteredPoints\<close>, and \<open>lastPoint\<close> is carried
  from one turn to the next. Each \<^verbatim>\<open>continue\<close> leaves \<open>lastPoint\<close> as it is.\<close>

fun filterLoop ::
  "jsdate option \<Rightarrow> jsdate option \<Rightarrow> jsnum \<Rightarrow> point option \<Rightarrow> point list \<Rightarrow> point list" where
  "filterLoop startTimeUtc endTimeUtc maxSpeedKmh lastPoint [] = []"
| "filterLoop startTimeUtc endTimeUtc maxSpeedKmh lastPoint (currentPoint # rest) =
     (if beforeStart startTimeUtc currentPoint
        then filterLoop startTimeUtc endTimeUtc maxSpeedKmh lastPoint rest
      else if afterEnd endTimeUtc currentPoint
        then filterLoop startTimeUtc endTimeUtc maxSpeedKmh lastPoint rest
      else if tooFast maxSpeedKmh lastPoint currentPoint
        then filterLoop startTimeUtc endTimeUtc maxSpeedKmh lastPoint rest
      else currentPoint
             # filterLoop startTimeUtc endTimeUtc maxSpeedKmh (Some currentPoint) rest)"

section \<open>GPX serializer\<close>

definition gpxHeader :: string where
  \<open>gpxHeader =
     ''<?xml version="1.0" encoding="UTF-8" standalone="no" ?>'' @ [CHR 0x0A]
     @ ''<gpx xmlns="http://www.topografix.com/GPX/1/1" version="1.1" creator="NMEA to GPX Converter">''
     @ [CHR 0x0A]
     @ ''<trk>'' @ [CHR 0x0A]
     @ ''<trkseg>'' @ [CHR 0x0A]\<close>

definition gpxFooter :: string where
  "gpxFooter = ''</trkseg>'' @ [CHR 0x0A] @ ''</trk>'' @ [CHR 0x0A] @ ''</gpx>''"

text \<open>The line of the \<^verbatim>\<open>ele\<close> element, written only for a point that has an altitude.\<close>

fun eleLine :: "jsnum option \<Rightarrow> string" where
  "eleLine None = []"
| "eleLine (Some a) = ''    <ele>'' @ toFixed a 2 @ ''</ele>'' @ [CHR 0x0A]"

definition trkpt :: "point \<Rightarrow> string \<Rightarrow> string" where
  \<open>trkpt p timeIso =
     ''  <trkpt lat="'' @ toFixed (lat p) 6 @ ''" lon="'' @ toFixed (lon p) 6 @ ''">'' @ [CHR 0x0A]
     @ eleLine (alt p)
     @ ''    <time>'' @ timeIso @ ''</time>'' @ [CHR 0x0A]
     @ ''  </trkpt>'' @ [CHR 0x0A]\<close>

text \<open>The last loop appends to \<^verbatim>\<open>gpxXml\<close>. \<^verbatim>\<open>toISOString\<close> is the first call of a
  turn, and its exception ends the conversion.\<close>

fun writePoints :: "string \<Rightarrow> point list \<Rightarrow> error + string" where
  "writePoints gpxXml [] = Inr gpxXml"
| "writePoints gpxXml (p # ps) =
     (case toISOString (time p) of
        Inl e \<Rightarrow> Inl e
      | Inr timeIso \<Rightarrow> writePoints (gpxXml @ trkpt p timeIso) ps)"

section \<open>The conversion\<close>

definition convertToGpx ::
  "(string \<Rightarrow> jsdate) \<Rightarrow> string \<Rightarrow> string \<Rightarrow> string \<Rightarrow> string \<Rightarrow> error + string" where
  "convertToGpx dateParse fileContent speedFilterType startTimeStr endTimeStr =
     (let combinedPoints = combinePoints (mergeLines (js_split (CHR 0x0A) fileContent))
      in if combinedPoints = [] then Inl NoValidPoints
         else
           (let filteredPoints =
                  filterLoop (parseJstToUtc dateParse startTimeStr)
                    (parseJstToUtc dateParse endTimeStr) (maxSpeedOf speedFilterType) None
                    (sortByTime combinedPoints)
            in if filteredPoints = [] then Inl NoPointsAfterFiltering
               else (case writePoints gpxHeader filteredPoints of
                       Inl e \<Rightarrow> Inl e
                     | Inr gpxXml \<Rightarrow> Inr (gpxXml @ gpxFooter))))"

section \<open>Concrete inputs\<close>

text \<open>A valid RMC sentence, and a GGA sentence of the same second with altitude 100.0.\<close>

definition rmcLine :: string where
  "rmcLine = ''$GPRMC,120000.00,A,3530.0000,N,13930.0000,E,0.0,0.0,010125,,*00''"

definition ggaLine :: string where
  "ggaLine = ''$GPGGA,120000.00,3530.0000,N,13930.0000,E,1,08,1.0,100.0,M,0.0,M,,*00''"

definition twoLineFile :: string where
  "twoLineFile = rmcLine @ [CHR 0x0A] @ ggaLine"

text \<open>A GGA sentence whose time field has hours 00, minutes 00 and the seconds part
  3944808000: the number of seconds from 1899-12-31T00:00:00Z to
  2025-01-01T12:00:00Z.\<close>

definition ggaLineLate :: string where
  "ggaLineLate = ''$GPGGA,00003944808000,3530.0000,N,13930.0000,E,1,08,1.0,100.0,M,0.0,M,,*00''"

definition lateFile :: string where
  "lateFile = rmcLine @ [CHR 0x0A] @ ggaLineLate"

text \<open>An RMC sentence with status A whose time field is not numeric.\<close>

definition rmcBadTime :: string where
  "rmcBadTime = ''$GPRMC,xx,A,3530.0000,N,13930.0000,E,0.0,0.0,010125,,*00''"

text \<open>A host date parser that accepts nothing; the conversions below have empty bounds
  and never call it.\<close>

definition noDateParse :: "string \<Rightarrow> jsdate" where
  "noDateParse s = InvalidDate"

text \<open>The point that \<open>rmcLine\<close> decodes to, without and with an altitude.\<close>

definition fixPoint :: point where
  "fixPoint = \<lparr>lat = Fin 35.5, lon = Fin 139.5, time = DateMs 1735732800000, alt = None\<rparr>"

definition fixPointAlt :: point where
  "fixPointAlt = \<lparr>lat = Fin 35.5, lon = Fin 139.5, time = DateMs 1735732800000,
                   alt = Some (Fin 100)\<rparr>"

definition badTimePoint :: point where
  "badTimePoint = \<lparr>lat = Fin 35.5, lon = Fin 139.5, time = InvalidDate, alt = None\<rparr>"

text \<open>The same RMC sentence with status V.\<close>

definition rmcLineVoid :: string where
  "rmcLineVoid = ''$GPRMC,120000.00,V,3530.0000,N,13930.0000,E,0.0,0.0,010125,,*00''"

text \<open>A sentence of another type.\<close>

definition vtgLine :: string where
  "vtgLine = ''$GPVTG,0.0,T,,M,0.0,N,0.0,K,A*00''"

text \<open>Three points for the speed filter: a start on the equator, a jump to the
  opposite meridian one second later, and a return to the start after another second.\<close>

definition anchorPoint :: point where
  "anchorPoint = \<lparr>lat = Fin 0, lon = Fin 0, time = DateMs 0, alt = None\<rparr>"

definition jumpPoint :: point where
  "jumpPoint = \<lparr>lat = Fin 0, lon = Fin 180, time = DateMs 1000, alt = None\<rparr>"

definition backPoint :: point where
  "backPoint = \<lparr>lat = Fin 0, lon = Fin 0, time = DateMs 2000, alt = None\<rparr>"

text \<open>Points one second before and one second after \<open>fixPoint\<close>.\<close>

definition earlyPoint :: point where
  "earlyPoint = \<lparr>lat = Fin 35.5, lon = Fin 139.5, time = DateMs 1735732799000, alt = None\<rparr>"

definition latePoint :: point where
  "latePoint = \<lparr>lat = Fin 35.5, lon = Fin 139.5, time = DateMs 1735732801000, alt = None\<rparr>"

text \<open>A host date parser that reads one text, 21:00:00 on 2025-01-01 at UTC+9, which is
  2025-01-01T12:00:00Z.\<close>

definition oneDateParse :: "string \<Rightarrow> jsdate" where
  "oneDateParse s =
     (if s = ''2025-01-01 21:00:00 GMT+0900'' then DateMs 1735732800000 else InvalidDate)"

section \<open>The words of the specification\<close>

text \<open>The comparison \<^verbatim>\<open>a <= b\<close> of JavaScript, which the program does not use: the
  specification states the time window with it.\<close>

fun num_le :: "jsnum \<Rightarrow> jsnum \<Rightarrow> bool" where
  "num_le (Fin a) (Fin b) = (a \<le> b)"
| "num_le (Fin a) PInf = True"
| "num_le (Fin a) NInf = False"
| "num_le (Fin a) NaN = False"
| "num_le NInf (Fin b) = True"
| "num_le NInf PInf = True"
| "num_le NInf NInf = True"
| "num_le NInf NaN = False"
| "num_le PInf PInf = True"
| "num_le PInf (Fin b) = False"
| "num_le PInf NInf = False"
| "num_le PInf NaN = False"
| "num_le NaN _ = False"

text \<open>The time window as the specification words it: start \<open>\<le>\<close> time \<open>\<le>\<close> end, each
  bound applied only when it is set.\<close>

definition spec_inWindow :: "jsdate option \<Rightarrow> jsdate option \<Rightarrow> point \<Rightarrow> bool" where
  "spec_inWindow startTimeUtc endTimeUtc p =
     ((case startTimeUtc of None \<Rightarrow> True
       | Some s \<Rightarrow> num_le (getTime s) (getTime (time p)))
      \<and> (case endTimeUtc of None \<Rightarrow> True
         | Some e \<Rightarrow> num_le (getTime (time p)) (getTime e)))"

text \<open>The key of the first second of the year 2000: seconds from 1970-01-01T00:00:00Z to
  2000-01-01T00:00:00Z.\<close>

definition year2000Sec :: real where
  "year2000Sec = 946684800"

text \<open>A text in which no \<^verbatim>\<open><\<close> is followed by \<^verbatim>\<open>e\<close>, and which does not end
  with \<^verbatim>\<open><\<close>: it holds no \<^verbatim>\<open><ele>\<close>, and neither does such a text appended to
  it.\<close>

definition noEleStart :: "string \<Rightarrow> bool" where
  "noEleStart s = (\<not> sublist ''<e'' s \<and> (s = [] \<or> last s \<noteq> CHR ''<''))"

section \<open>What a line writes\<close>

text \<open>The entry that the merge step writes into \<^verbatim>\<open>rmcPoints\<close> for a line: the line
  decodes to an RMC record of status Valid. And the entry that it writes into
  \<^verbatim>\<open>ggaAlts\<close>: the line decodes to a GGA record.\<close>

definition fixOf :: "string \<Rightarrow> (jsnum \<times> data) option" where
  "fixOf line =
     (case parseNmeaSentence (js_trim line) of
        Some (Rmc st t la lo) \<Rightarrow>
          if st = ''Valid'' then Some (timeKeyOf t, Rmc st t la lo) else None
      | _ \<Rightarrow> None)"

definition altOf :: "string \<Rightarrow> (jsnum \<times> jsnum) option" where
  "altOf line =
     (case parseNmeaSentence (js_trim line) of
        Some (Gga st a t) \<Rightarrow> Some (timeKeyOf t, a)
      | _ \<Rightarrow> None)"

section \<open>Evaluation and lemmas\<close>

lemma natDigits_small: "n < 10 \<Longrightarrow> natDigits n = [digitChar n]"
  by (simp add: natDigits.simps)

lemma natDigits_big:
  "\<not> n < 10 \<Longrightarrow> natDigits n = natDigits (n div 10) @ [digitChar (n mod 10)]"
  by (subst natDigits.simps) simp

lemma padLeft_more: "length s < n \<Longrightarrow> padLeft n s = padLeft n (CHR ''0'' # s)"
  by (subst padLeft.simps) simp

lemma padLeft_done: "\<not> length s < n \<Longrightarrow> padLeft n s = s"
  by (subst padLeft.simps) simp

lemmas print_eval = natDigits_small natDigits_big padLeft_more padLeft_done digitChar_def

lemmas parse_eval = parseInt_def parseFloat_def substring_def substringFrom_def isWhite_def
  isDigit_def digitsVal_def digitVal_def scale10_def

lemmas date_eval = num_sub_def toInteger_def makeDay_def makeTime_def dayFromYear_def
  inLeapYear_def monthStart_def

lemma split_rmcLine:
  "js_split CHR '','' rmcLine =
     [''$GPRMC'', ''120000.00'', ''A'', ''3530.0000'', ''N'', ''13930.0000'', ''E'', ''0.0'',
      ''0.0'', ''010125'', [], ''*00'']"
  by (simp add: rmcLine_def)

lemma split_ggaLine:
  "js_split CHR '','' ggaLine =
     [''$GPGGA'', ''120000.00'', ''3530.0000'', ''N'', ''13930.0000'', ''E'', ''1'', ''08'',
      ''1.0'', ''100.0'', ''M'', ''0.0'', ''M'', [], ''*00'']"
  by (simp add: ggaLine_def)

lemma split_ggaLineLate:
  "js_split CHR '','' ggaLineLate =
     [''$GPGGA'', ''00003944808000'', ''3530.0000'', ''N'', ''13930.0000'', ''E'', ''1'', ''08'',
      ''1.0'', ''100.0'', ''M'', ''0.0'', ''M'', [], ''*00'']"
  by (simp add: ggaLineLate_def)

lemma split_rmcBadTime:
  "js_split CHR '','' rmcBadTime =
     [''$GPRMC'', ''xx'', ''A'', ''3530.0000'', ''N'', ''13930.0000'', ''E'', ''0.0'',
      ''0.0'', ''010125'', [], ''*00'']"
  by (simp add: rmcBadTime_def)

lemma trim_examples:
  "js_trim rmcLine = rmcLine" "js_trim ggaLine = ggaLine"
  "js_trim ggaLineLate = ggaLineLate" "js_trim rmcBadTime = rmcBadTime"
  by (simp_all add: rmcLine_def ggaLine_def ggaLineLate_def rmcBadTime_def js_trim_def
      isWhite_def)

lemma time_120000: "parseNmeaTime ''120000.00'' ''010125'' = Some (DateMs 1735732800000)"
  by (simp add: parseNmeaTime_def parse_eval date_eval)

lemma time_xx: "parseNmeaTime ''xx'' ''010125'' = Some InvalidDate"
  by (simp add: parseNmeaTime_def parse_eval date_eval)

lemma lat_3530: "parseNmeaCoordinate ''3530.0000'' ''N'' = Some (Fin 35.5)"
  by (simp add: parseNmeaCoordinate_def parse_eval)

lemma lon_13930: "parseNmeaCoordinate ''13930.0000'' ''E'' = Some (Fin 139.5)"
  by (simp add: parseNmeaCoordinate_def parse_eval)

lemma ggaTime_120000: "ggaTime ''120000.00'' = DateMs (- 2209032000000)"
  by (simp add: ggaTime_def parse_eval date_eval)

lemma ggaTime_late: "ggaTime ''00003944808000'' = DateMs 1735732800000"
  by (simp add: ggaTime_def parse_eval date_eval)

lemma alt_100: "parseFloat ''100.0'' = Fin 100"
  by (simp add: parse_eval)

lemma parse_rmcLine:
  "parseNmeaSentence rmcLine = Some (Rmc ''Valid'' (DateMs 1735732800000) (Fin 35.5) (Fin 139.5))"
  by (simp add: parseNmeaSentence_def split_rmcLine substringFrom_def time_120000 lat_3530
      lon_13930)

lemma parse_ggaLine:
  "parseNmeaSentence ggaLine = Some (Gga ''Invalid'' (Fin 100) (DateMs (- 2209032000000)))"
  by (simp add: parseNmeaSentence_def split_ggaLine substringFrom_def ggaTime_120000 alt_100
      isNaN_def)

lemma parse_ggaLineLate:
  "parseNmeaSentence ggaLineLate = Some (Gga ''Invalid'' (Fin 100) (DateMs 1735732800000))"
  by (simp add: parseNmeaSentence_def split_ggaLineLate substringFrom_def ggaTime_late alt_100
      isNaN_def)

lemma parse_rmcBadTime:
  "parseNmeaSentence rmcBadTime = Some (Rmc ''Valid'' InvalidDate (Fin 35.5) (Fin 139.5))"
  by (simp add: parseNmeaSentence_def split_rmcBadTime substringFrom_def time_xx lat_3530
      lon_13930)

lemmas parse_examples = trim_examples parse_rmcLine parse_ggaLine parse_ggaLineLate
  parse_rmcBadTime

lemma lines_twoLineFile: "js_split (CHR 0x0A) twoLineFile = [rmcLine, ggaLine]"
  unfolding twoLineFile_def rmcLine_def ggaLine_def by simp

lemma lines_lateFile: "js_split (CHR 0x0A) lateFile = [rmcLine, ggaLineLate]"
  unfolding lateFile_def rmcLine_def ggaLineLate_def by simp

lemma lines_rmcBadTime: "js_split (CHR 0x0A) rmcBadTime = [rmcBadTime]"
  unfolding rmcBadTime_def by simp

lemma combine_twoLineFile: "combinePoints (mergeLines [rmcLine, ggaLine]) = [fixPoint]"
  by (simp add: mergeLines_def mergeStep_def parse_examples timeKeyOf_def combinePoints_def
      mapGet_def fixPoint_def)

lemma combine_lateFile: "combinePoints (mergeLines [rmcLine, ggaLineLate]) = [fixPointAlt]"
  by (simp add: mergeLines_def mergeStep_def parse_examples timeKeyOf_def combinePoints_def
      mapGet_def fixPointAlt_def)

lemma combine_rmcBadTime: "combinePoints (mergeLines [rmcBadTime]) = [badTimePoint]"
  by (simp add: mergeLines_def mergeStep_def parse_examples timeKeyOf_def combinePoints_def
      mapGet_def badTimePoint_def)

lemma civil_20089: "civilFromDays 20089 = (2025, 1, 1)"
  unfolding civilFromDays_def Let_def by simp

lemma iso_fix: "toISOString (DateMs 1735732800000) = Inr ''2025-01-01T12:00:00.000Z''"
  by (simp add: toISOString.simps(2) civil_20089 print_eval)

lemma print_fixPoint:
  "toFixed (lat fixPoint) 6 = ''35.500000''"
  "toFixed (lon fixPoint) 6 = ''139.500000''"
  "toISOString (time fixPoint) = Inr ''2025-01-01T12:00:00.000Z''"
  "eleLine (alt fixPoint) = []"
  by (simp_all add: fixPoint_def toFixed.simps(4) iso_fix print_eval)

lemma print_fixPointAlt:
  "toFixed (lat fixPointAlt) 6 = ''35.500000''"
  "toFixed (lon fixPointAlt) 6 = ''139.500000''"
  "toISOString (time fixPointAlt) = Inr ''2025-01-01T12:00:00.000Z''"
  "eleLine (alt fixPointAlt) = ''    <ele>100.00</ele>'' @ [CHR 0x0A]"
  by (simp_all add: fixPointAlt_def toFixed.simps(4) iso_fix print_eval)

lemma sort_single: "sortByTime [p] = [p]"
  by (simp add: sortByTime_def)

lemma bounds_empty: "parseJstToUtc dateParse [] = None"
  by (simp add: parseJstToUtc_def)

lemma coordinate_null_iff:
  "(parseNmeaCoordinate coordStr direction = None) = (coordStr = [] \<or> direction = [])"
  by (simp add: parseNmeaCoordinate_def Let_def split: prod.splits)

lemma coordinate_abc: "parseNmeaCoordinate ''abc'' ''N'' = Some NaN"
  by (simp add: parseNmeaCoordinate_def parse_eval)

lemma civil_20090: "civilFromDays 20090 = (2025, 1, 2)"
  unfolding civilFromDays_def Let_def by simp

lemma substring_of_rest: "substringFrom s 3 = [a, b, c] \<Longrightarrow> substring s 3 6 = [a, b, c]"
  by (simp add: substring_def substringFrom_def)

lemma split_vtgLine:
  "js_split CHR '','' vtgLine =
     [''$GPVTG'', ''0.0'', ''T'', [], ''M'', ''0.0'', ''N'', ''0.0'', ''K'', ''A*00'']"
  by (simp add: vtgLine_def)

lemma invalid_status_step:
  assumes "substringFrom (js_split CHR '','' (js_trim line) ! 0) 3 = ''RMC''"
      and "js_split CHR '','' (js_trim line) ! 2 \<noteq> ''A''"
  shows "mergeStep maps line = maps"
  using assms
  by (simp add: mergeStep_def parseNmeaSentence_def Let_def split: option.splits)

lemma split_rmcLineVoid:
  "js_split CHR '','' rmcLineVoid =
     [''$GPRMC'', ''120000.00'', ''V'', ''3530.0000'', ''N'', ''13930.0000'', ''E'', ''0.0'',
      ''0.0'', ''010125'', [], ''*00'']"
  by (simp add: rmcLineVoid_def)

lemma trim_rmcLineVoid: "js_trim rmcLineVoid = rmcLineVoid"
  by (simp add: rmcLineVoid_def js_trim_def isWhite_def)

lemma parse_rmcLineVoid:
  "parseNmeaSentence rmcLineVoid
     = Some (Rmc ''Invalid'' (DateMs 1735732800000) (Fin 35.5) (Fin 139.5))"
  by (simp add: parseNmeaSentence_def split_rmcLineVoid substringFrom_def time_120000 lat_3530
      lon_13930)

lemma speed_above_cap_needs_distance:
  assumes "0 \<le> c" and "num_gt (timeDiffSec a p) (Fin 0)"
      and "num_gt (speedKmh a p) (Fin c)"
  shows "num_gt (distanceKm a p) (Fin 0)"
proof (cases "distanceKm a p")
  case (Fin d)
  show ?thesis
  proof (cases "timeDiffSec a p")
    case (Fin t)
    with assms(2) have "0 < t" by (simp add: num_gt_def)
    with Fin \<open>distanceKm a p = Fin d\<close> assms(1,3) have "c < d / t * 3600"
      by (simp add: speedKmh_def num_gt_def)
    with \<open>0 < t\<close> assms(1) have "0 < d"
      by (smt (verit) divide_nonpos_pos mult_nonneg_nonpos2 mult.commute zero_le_mult_iff)
    with \<open>distanceKm a p = Fin d\<close> show ?thesis by (simp add: num_gt_def)
  next
    case PInf
    with \<open>distanceKm a p = Fin d\<close> assms(1,3) show ?thesis
      by (simp add: speedKmh_def num_gt_def)
  qed (use assms(2) in \<open>simp_all add: num_gt_def\<close>)
next
  case NaN
  with assms(3) show ?thesis
    by (cases "timeDiffSec a p") (simp_all add: speedKmh_def num_gt_def)
next
  case NInf
  with assms(2,3) show ?thesis
    by (cases "timeDiffSec a p") (simp_all add: speedKmh_def num_gt_def split: if_splits)
next
  case PInf
  then show ?thesis by (simp add: num_gt_def)
qed

lemma rejected_when_too_fast:
  assumes "maxSpeedKmh = Fin 10 \<or> maxSpeedKmh = Fin 100"
      and "num_gt (timeDiffSec a p) (Fin 0)" and "num_gt (speedKmh a p) maxSpeedKmh"
  shows "tooFast maxSpeedKmh (Some a) p"
  using assms speed_above_cap_needs_distance [of 10 a p]
    speed_above_cap_needs_distance [of 100 a p]
  by auto

lemma accepted_without_motion:
  assumes "(\<exists>t. timeDiffSec a p = Fin t \<and> t \<le> 0) \<or> distanceKm a p = Fin 0"
  shows "\<not> tooFast maxSpeedKmh (Some a) p"
  using assms by (auto simp: num_gt_def)

lemma haversine_half_turn: "haversineKm 0 0 0 180 = 6371 * pi"
  by (simp add: haversineKm_def toRad_def atan2_def)

lemma haversine_half_turn_back: "haversineKm 0 180 0 0 = 6371 * pi"
  by (simp add: haversineKm_def toRad_def atan2_def)

lemma haversine_same_place: "haversineKm 0 0 0 0 = 0"
  by (simp add: haversineKm_def toRad_def atan2_def)

lemma witness_speeds:
  "timeDiffSec anchorPoint jumpPoint = Fin 1"
  "speedKmh anchorPoint jumpPoint = Fin (6371 * pi * 3600)"
  "speedKmh jumpPoint backPoint = Fin (6371 * pi * 3600)"
  "timeDiffSec anchorPoint backPoint = Fin 2"
  "distanceKm anchorPoint backPoint = Fin 0"
  "speedKmh anchorPoint backPoint = Fin 0"
  by (simp_all add: timeDiffSec_def speedKmh_def distanceKm_def anchorPoint_def jumpPoint_def
      backPoint_def num_sub_def haversine_half_turn haversine_half_turn_back
      haversine_same_place)

lemma bound_is_valid: "parseJstToUtc dateParse timeStr = Some d \<Longrightarrow> d \<noteq> InvalidDate"
  by (auto simp: parseJstToUtc_def Let_def isNaN_def split: if_splits)

lemma window_tests_as_specified:
  assumes "time p \<noteq> InvalidDate" and "s \<noteq> Some InvalidDate" and "e \<noteq> Some InvalidDate"
  shows "(\<not> beforeStart s p \<and> \<not> afterEnd e p) = spec_inWindow s e p"
proof -
  obtain t where t: "time p = DateMs t"
    using assms(1) by (cases "time p") auto
  have "(\<not> beforeStart s p) = (case s of None \<Rightarrow> True
       | Some st \<Rightarrow> num_le (getTime st) (getTime (time p)))"
  proof (cases s)
    case (Some st)
    with assms(2) obtain x where "st = DateMs x" by (cases st) auto
    with Some t show ?thesis by auto
  qed simp
  moreover have "(\<not> afterEnd e p) = (case e of None \<Rightarrow> True
       | Some en \<Rightarrow> num_le (getTime (time p)) (getTime en))"
  proof (cases e)
    case (Some en)
    with assms(3) obtain x where "en = DateMs x" by (cases en) auto
    with Some t show ?thesis by (auto simp: num_gt_def)
  qed simp
  ultimately show ?thesis by (simp add: spec_inWindow_def)
qed

lemma no_cap_never_too_fast: "\<not> tooFast PInf lastPoint p"
  by (cases lastPoint) (simp_all add: num_gt_def)

lemma filterLoop_without_cap:
  "filterLoop s e PInf lastPoint ps = filter (\<lambda>p. \<not> beforeStart s p \<and> \<not> afterEnd e p) ps"
  by (induction ps arbitrary: lastPoint) (simp_all add: no_cap_never_too_fast del: tooFast.simps)

lemma filterLoop_subset:
  "set (filterLoop s e cap lastPoint ps) \<subseteq> {p \<in> set ps. \<not> beforeStart s p \<and> \<not> afterEnd e p}"
  by (induction ps arbitrary: lastPoint) (auto simp del: tooFast.simps)

lemma bound_oneDateParse:
  "parseJstToUtc oneDateParse ''2025-01-01 21:00:00'' = Some (DateMs 1735732800000)"
  by (simp add: parseJstToUtc_def oneDateParse_def isNaN_def)

lemma times_of_points:
  "time earlyPoint = DateMs 1735732799000" "time fixPoint = DateMs 1735732800000"
  "time latePoint = DateMs 1735732801000" "time badTimePoint = InvalidDate"
  by (simp_all add: earlyPoint_def fixPoint_def latePoint_def badTimePoint_def)

lemma mergeStep_writes:
  "mergeStep maps line =
     ((case fixOf line of None \<Rightarrow> fst maps | Some (k, d) \<Rightarrow> mapSet k d (fst maps)),
      (case altOf line of None \<Rightarrow> snd maps | Some (k, a) \<Rightarrow> mapSet k a (snd maps)))"
  by (simp add: mergeStep_def fixOf_def altOf_def split: option.splits data.splits)

lemma mapGet_mapSet_same: "mapGet (mapSet k v m) k = Some v"
  by (induction m) (auto simp: mapGet_def)

lemma mapGet_mapSet_other: "k' \<noteq> k \<Longrightarrow> mapGet (mapSet k v m) k' = mapGet m k'"
  by (induction m) (auto simp: mapGet_def)

lemma map_fst_mapSet:
  "map fst (mapSet k v m) = (if k \<in> fst ` set m then map fst m else map fst m @ [k])"
  by (induction m) (auto simp: rev_image_eqI)

lemma keys_mapSet: "fst ` set (mapSet k v m) = insert k (fst ` set m)"
  using arg_cong [OF map_fst_mapSet [of k v m], of set] by (auto split: if_splits)

lemma distinct_mapSet: "distinct (map fst m) \<Longrightarrow> distinct (map fst (mapSet k v m))"
  by (simp add: map_fst_mapSet)

lemma entries_mapSet: "set (mapSet k v m) \<subseteq> insert (k, v) (set m)"
  by (induction m) (auto split: if_splits)

lemma mapSet_twice: "mapSet k v (mapSet k v m) = mapSet k v m"
  by (induction m) auto

lemma one_entry_per_key:
  "distinct (map fst m) \<Longrightarrow> k \<in> fst ` set m \<Longrightarrow>
   length (filter (\<lambda>entry. fst entry = k) m) = 1"
proof (induction m)
  case (Cons x m)
  show ?case
  proof (cases "fst x = k")
    case True
    from Cons.prems(1) have "fst x \<notin> fst ` set m"
      by simp
    with True have "\<forall>entry \<in> set m. fst entry \<noteq> k"
      by (metis image_eqI)
    then have "filter (\<lambda>entry. fst entry = k) m = []"
      by (simp add: filter_empty_conv)
    with True show ?thesis by simp
  next
    case False
    with Cons show ?thesis by auto
  qed
qed simp

lemma mergeStep_twice: "mergeStep (mergeStep maps line) line = mergeStep maps line"
  by (simp add: mergeStep_writes mapSet_twice split: option.splits)

lemma mergeStep_distinct:
  "distinct (map fst (fst maps)) \<and> distinct (map fst (snd maps)) \<Longrightarrow>
   distinct (map fst (fst (mergeStep maps line)))
   \<and> distinct (map fst (snd (mergeStep maps line)))"
  by (simp add: mergeStep_writes distinct_mapSet split: option.splits)

lemma merge_distinct:
  "distinct (map fst (fst maps)) \<and> distinct (map fst (snd maps)) \<Longrightarrow>
   distinct (map fst (fst (foldl mergeStep maps lines)))
   \<and> distinct (map fst (snd (foldl mergeStep maps lines)))"
proof (induction lines arbitrary: maps)
  case (Cons l lines)
  from Cons.IH [OF mergeStep_distinct [OF Cons.prems]] show ?case by simp
qed simp

lemma mergeStep_keeps_keys:
  "fst ` set (fst maps) \<subseteq> fst ` set (fst (mergeStep maps line))"
proof (cases "fixOf line")
  case None
  then show ?thesis by (simp add: mergeStep_writes)
next
  case (Some entry)
  then obtain k d where "fixOf line = Some (k, d)"
    by (cases entry) simp
  then show ?thesis
    by (simp add: mergeStep_writes keys_mapSet subset_insertI)
qed

lemma merge_keeps_keys:
  "fst ` set (fst maps) \<subseteq> fst ` set (fst (foldl mergeStep maps lines))"
proof (induction lines arbitrary: maps)
  case (Cons l lines)
  show ?case using Cons.IH [of "mergeStep maps l"] mergeStep_keeps_keys [of maps l] by auto
qed simp

lemma merge_fix_last_write:
  "\<forall>l \<in> set later. \<forall>d'. fixOf l \<noteq> Some (k, d') \<Longrightarrow>
   mapGet (fst (foldl mergeStep maps later)) k = mapGet (fst maps) k"
proof (induction later arbitrary: maps)
  case (Cons l later)
  have "mapGet (fst (mergeStep maps l)) k = mapGet (fst maps) k"
    using Cons.prems
    by (cases "fixOf l") (auto simp: mergeStep_writes mapGet_mapSet_other)
  with Cons show ?case by simp
qed simp

lemma merge_alt_last_write:
  "\<forall>l \<in> set later. \<forall>a'. altOf l \<noteq> Some (k, a') \<Longrightarrow>
   mapGet (snd (foldl mergeStep maps later)) k = mapGet (snd maps) k"
proof (induction later arbitrary: maps)
  case (Cons l later)
  have "mapGet (snd (mergeStep maps l)) k = mapGet (snd maps) k"
    using Cons.prems
    by (cases "altOf l") (auto simp: mergeStep_writes mapGet_mapSet_other)
  with Cons show ?case by simp
qed simp

lemma fixOf_rmcLine:
  "fixOf rmcLine
     = Some (Fin 1735732800, Rmc ''Valid'' (DateMs 1735732800000) (Fin 35.5) (Fin 139.5))"
  by (simp add: fixOf_def parse_examples timeKeyOf_def)

lemma altOf_ggaLine: "altOf ggaLine = Some (Fin (- 2209032000), Fin 100)"
  by (simp add: altOf_def parse_examples timeKeyOf_def)

lemma fixOf_others: "fixOf ggaLine = None" "fixOf rmcLineVoid = None"
  by (simp_all add: fixOf_def parse_examples trim_rmcLineVoid parse_rmcLineVoid)

lemma altOf_others: "altOf rmcLine = None" "altOf rmcLineVoid = None"
  by (simp_all add: altOf_def parse_examples trim_rmcLineVoid parse_rmcLineVoid)

lemma merge_rmcLine_once:
  "fst (mergeLines [rmcLine])
     = [(Fin 1735732800, Rmc ''Valid'' (DateMs 1735732800000) (Fin 35.5) (Fin 139.5))]"
  by (simp add: mergeLines_def mergeStep_writes fixOf_rmcLine)

lemma noEleStart_append:
  assumes "noEleStart x" and "noEleStart y"
  shows "noEleStart (x @ y)"
proof -
  have "\<not> sublist ''<e'' (x @ y)"
  proof
    assume "sublist ''<e'' (x @ y)"
    then consider "sublist ''<e'' x" | "sublist ''<e'' y"
      | xs1 xs2 where "''<e'' = xs1 @ xs2" "suffix xs1 x" "prefix xs2 y"
      by (auto simp: sublist_append)
    then show False
    proof cases
      case 3
      show False
      proof (cases xs1)
        case Nil
        with 3 have "prefix ''<e'' y" by simp
        then have "sublist ''<e'' y" by (rule prefix_imp_sublist)
        with assms(2) show False by (simp add: noEleStart_def)
      next
        case (Cons c r)
        show False
        proof (cases r)
          case Nil
          with Cons 3 have "suffix ''<'' x" by simp
          then have "x \<noteq> [] \<and> last x = CHR ''<''" by (auto simp: suffix_def)
          with assms(1) show False by (simp add: noEleStart_def)
        next
          case (Cons c' r')
          with \<open>xs1 = c # r\<close> 3 have "xs1 = ''<e''" by simp
          with 3 have "sublist ''<e'' x" by (simp add: suffix_imp_sublist)
          with assms(1) show False by (simp add: noEleStart_def)
        qed
      qed
    qed (use assms in \<open>simp_all add: noEleStart_def\<close>)
  qed
  moreover have "x @ y = [] \<or> last (x @ y) \<noteq> CHR ''<''"
    using assms by (cases "y = []") (simp_all add: noEleStart_def)
  ultimately show ?thesis by (simp add: noEleStart_def)
qed

lemma noEleStart_without_lt: "CHR ''<'' \<notin> set s \<Longrightarrow> noEleStart s"
proof -
  assume a: "CHR ''<'' \<notin> set s"
  have "\<not> sublist ''<e'' s"
  proof
    assume "sublist ''<e'' s"
    then have "set ''<e'' \<subseteq> set s" by (rule set_mono_sublist)
    with a show False by simp
  qed
  moreover from a have "s = [] \<or> last s \<noteq> CHR ''<''"
    by (metis last_in_set)
  ultimately show ?thesis by (simp add: noEleStart_def)
qed

lemma noEleStart_no_ele: "noEleStart s \<Longrightarrow> \<not> sublist ''<ele>'' s"
proof
  assume "noEleStart s" and "sublist ''<ele>'' s"
  have "sublist ''<e'' ''<ele>''"
    by (simp add: sublist_Cons_right)
  from this \<open>sublist ''<ele>'' s\<close> have "sublist ''<e'' s"
    by (rule sublist_order.order_trans)
  with \<open>noEleStart s\<close> show False by (simp add: noEleStart_def)
qed

lemma digitChar_not_lt: "d < 10 \<Longrightarrow> CHR ''<'' \<noteq> digitChar d"
proof -
  assume "d < 10"
  then have "digitChar d \<in> set ''0123456789''"
    unfolding digitChar_def by (intro nth_mem) simp
  then show ?thesis by auto
qed

lemma natDigits_no_lt: "CHR ''<'' \<notin> set (natDigits n)"
proof (induction n rule: natDigits.induct)
  case (1 n)
  show ?case
  proof (cases "n < 10")
    case True
    then show ?thesis by (simp add: natDigits_small digitChar_not_lt)
  next
    case False
    with 1 show ?thesis by (simp add: natDigits_big digitChar_not_lt)
  qed
qed

lemma padLeft_no_lt: "CHR ''<'' \<notin> set s \<Longrightarrow> CHR ''<'' \<notin> set (padLeft n s)"
proof (induction n s rule: padLeft.induct)
  case (1 n s)
  show ?case
  proof (cases "length s < n")
    case True
    with 1 show ?thesis by (simp add: padLeft_more)
  next
    case False
    with 1 show ?thesis by (simp add: padLeft_done)
  qed
qed

lemma toFixed_no_lt: "CHR ''<'' \<notin> set (toFixed x f)"
proof (cases x)
  case (Fin r)
  have m: "CHR ''<'' \<notin> set (padLeft (f + 1) (natDigits n))" for n
    by (simp add: padLeft_no_lt natDigits_no_lt)
  show ?thesis
    using m by (auto simp: Fin toFixed.simps(4) Let_def dest: in_set_takeD in_set_dropD)
qed simp_all

lemma toISOString_no_lt: "toISOString d = Inr s \<Longrightarrow> CHR ''<'' \<notin> set s"
proof (cases d)
  case (DateMs t)
  assume "toISOString d = Inr s"
  with DateMs show ?thesis
    by (auto simp: toISOString.simps(2) Let_def padLeft_no_lt natDigits_no_lt
        split: prod.splits if_splits)
qed simp

lemma noEleStart_pieces:
  \<open>noEleStart ''  <trkpt lat="''\<close> \<open>noEleStart ''" lon="''\<close> \<open>noEleStart ''">''\<close>
  \<open>noEleStart [CHR 0x0A]\<close> \<open>noEleStart ''    <time>''\<close> \<open>noEleStart ''</time>''\<close>
  \<open>noEleStart ''  </trkpt>''\<close> \<open>noEleStart gpxHeader\<close> \<open>noEleStart gpxFooter\<close>
  \<open>noEleStart []\<close>
  by (simp_all add: noEleStart_def sublist_Cons_right gpxHeader_def gpxFooter_def)

lemma noEleStart_trkpt:
  assumes "alt p = None" and "CHR ''<'' \<notin> set timeIso"
  shows "noEleStart (trkpt p timeIso)"
proof -
  have a: "noEleStart (toFixed (lat p) 6)" and b: "noEleStart (toFixed (lon p) 6)"
    by (simp_all add: noEleStart_without_lt toFixed_no_lt)
  have c: "noEleStart timeIso"
    using assms(2) by (rule noEleStart_without_lt)
  have d: "noEleStart (eleLine (alt p))"
    using assms(1) by (simp add: noEleStart_pieces)
  show ?thesis
    unfolding trkpt_def by (intro noEleStart_append a b c d noEleStart_pieces)
qed

lemma noEleStart_writePoints:
  "writePoints gpxXml ps = Inr xml \<Longrightarrow> noEleStart gpxXml \<Longrightarrow> \<forall>p \<in> set ps. alt p = None \<Longrightarrow>
   noEleStart xml"
proof (induction ps arbitrary: gpxXml)
  case (Cons p ps)
  from Cons.prems(1) obtain timeIso where iso: "toISOString (time p) = Inr timeIso"
    and rest: "writePoints (gpxXml @ trkpt p timeIso) ps = Inr xml"
    by (auto split: sum.splits)
  have "noEleStart (gpxXml @ trkpt p timeIso)"
    using Cons.prems iso by (intro noEleStart_append noEleStart_trkpt toISOString_no_lt) auto
  with Cons.IH [OF rest] Cons.prems(3) show ?case by simp
qed simp

lemma sort_keeps_points: "set (sortByTime ps) = set ps"
proof -
  have ins: "set (insertByTime x ys) = insert x (set ys)" for x ys
    by (induction ys) auto
  show ?thesis
    unfolding sortByTime_def by (induction ps) (simp_all add: ins)
qed

lemma merge_fix_entries:
  "(k, d) \<in> set (fst (foldl mergeStep maps lines)) \<Longrightarrow>
   (k, d) \<in> set (fst maps) \<or> (\<exists>l \<in> set lines. fixOf l = Some (k, d))"
proof (induction lines arbitrary: maps)
  case (Cons l lines)
  from Cons.IH [of "mergeStep maps l"] Cons.prems
  consider "(k, d) \<in> set (fst (mergeStep maps l))" | "\<exists>l' \<in> set lines. fixOf l' = Some (k, d)"
    by auto
  then show ?case
  proof cases
    case 1
    then have "(k, d) \<in> set (fst maps) \<or> fixOf l = Some (k, d)"
      using entries_mapSet by (fastforce simp: mergeStep_writes split: option.splits)
    then show ?thesis by auto
  qed auto
qed simp

lemma merge_alt_entries:
  "(k, a) \<in> set (snd (foldl mergeStep maps lines)) \<Longrightarrow>
   (k, a) \<in> set (snd maps) \<or> (\<exists>l \<in> set lines. altOf l = Some (k, a))"
proof (induction lines arbitrary: maps)
  case (Cons l lines)
  from Cons.IH [of "mergeStep maps l"] Cons.prems
  consider "(k, a) \<in> set (snd (mergeStep maps l))" | "\<exists>l' \<in> set lines. altOf l' = Some (k, a)"
    by auto
  then show ?case
  proof cases
    case 1
    then have "(k, a) \<in> set (snd maps) \<or> altOf l = Some (k, a)"
      using entries_mapSet by (fastforce simp: mergeStep_writes split: option.splits)
    then show ?thesis by auto
  qed auto
qed simp

lemma no_altitude_when_keys_apart:
  assumes fx: "\<forall>line \<in> set lines. \<forall>k d. fixOf line = Some (k, d)
                    \<longrightarrow> (\<exists>s. k = Fin s \<and> year2000Sec \<le> s)"
      and alts: "\<forall>line \<in> set lines. \<forall>k a. altOf line = Some (k, a)
                    \<longrightarrow> k = NaN \<or> (\<exists>s. k = Fin s \<and> s < year2000Sec)"
      and p: "p \<in> set (combinePoints (mergeLines lines))"
  shows "alt p = None"
proof (rule ccontr)
  assume "alt p \<noteq> None"
  then obtain a where a: "alt p = Some a" by auto
  from p obtain k d where kd: "(k, d) \<in> set (fst (mergeLines lines))"
    and altp: "alt p = mapGet (snd (mergeLines lines)) k"
    by (auto simp: combinePoints_def)
  from a altp have "(k, a) \<in> set (snd (mergeLines lines))"
    by (simp add: mapGet_def map_of_SomeD)
  then obtain l2 where l2: "l2 \<in> set lines" "altOf l2 = Some (k, a)"
    using merge_alt_entries [of k a "([], [])" lines] by (auto simp: mergeLines_def)
  from kd obtain l1 where l1: "l1 \<in> set lines" "fixOf l1 = Some (k, d)"
    using merge_fix_entries [of k d "([], [])" lines] by (auto simp: mergeLines_def)
  from fx l1 obtain s where "k = Fin s" "year2000Sec \<le> s" by blast
  moreover from alts l2 have "k = NaN \<or> (\<exists>s'. k = Fin s' \<and> s' < year2000Sec)" by blast
  ultimately show False by auto
qed

lemma digitVal_of_digit: "isDigit c \<Longrightarrow> digitVal c \<le> 9"
  by (auto simp: isDigit_def digitVal_def)

lemma digitsVal_two_digits:
  assumes "\<forall>c \<in> set ds. isDigit c" and "length ds \<le> 2"
  shows "digitsVal ds \<le> 99"
proof -
  consider "ds = []" | a where "ds = [a]" | a b where "ds = [a, b]"
    using assms(2) by (cases ds; cases "tl ds"; cases "tl (tl ds)") auto
  then show ?thesis
  proof cases
    case 2
    with assms(1) digitVal_of_digit [of a] show ?thesis by (simp add: digitsVal_def)
  next
    case 3
    with assms(1) digitVal_of_digit [of a] digitVal_of_digit [of b] show ?thesis
      by (simp add: digitsVal_def)
  qed (simp add: digitsVal_def)
qed

lemma length_takeSign: "length (snd (takeSign s)) \<le> length s"
  by (cases s) auto

lemma parseInt_two_chars:
  assumes "length s \<le> 2"
  shows "parseInt s = NaN \<or> (\<exists>i::int. parseInt s = Fin (of_int i) \<and> i \<le> 99)"
proof -
  obtain neg u where nu: "takeSign (dropWhile isWhite s) = (neg, u)"
    by (cases "takeSign (dropWhile isWhite s)") auto
  have "length u \<le> length (dropWhile isWhite s)"
    using length_takeSign [of "dropWhile isWhite s"] nu by simp
  also have "\<dots> \<le> length s"
    by (rule length_dropWhile_le)
  finally have "length (takeWhile isDigit u) \<le> 2"
    using assms length_takeWhile_le [of isDigit u] by linarith
  moreover have "\<forall>c \<in> set (takeWhile isDigit u). isDigit c"
    by (auto dest: set_takeWhileD)
  ultimately have b: "digitsVal (takeWhile isDigit u) \<le> 99"
    using digitsVal_two_digits by blast
  show ?thesis
  proof (cases "takeWhile isDigit u = []")
    case True
    with nu show ?thesis by (simp add: parseInt_def)
  next
    case False
    let ?n = "digitsVal (takeWhile isDigit u)"
    have "parseInt s = Fin (of_int (if neg then - int ?n else int ?n))"
      using nu False by (simp add: parseInt_def)
    moreover have "(if neg then - int ?n else int ?n) \<le> 99"
      using b by simp
    ultimately show ?thesis by blast
  qed
qed

lemma timeKeyOf_cases:
  "timeKeyOf InvalidDate = NaN" "timeKeyOf (DateMs t) = Fin (of_int (t div 1000))"
  by (simp_all add: timeKeyOf_def floor_divide_of_int_eq [of t 1000, simplified])

lemma ggaTime_key_before_2000:
  assumes "num_floor (parseFloat (substringFrom timeStr 4)) = Fin s" and "s < 3155397660"
  shows "timeKeyOf (ggaTime timeStr) = NaN
         \<or> (\<exists>k. timeKeyOf (ggaTime timeStr) = Fin k \<and> k < year2000Sec)"
proof -
  obtain si :: int where si: "s = of_int si"
    using assms(1) by (cases "parseFloat (substringFrom timeStr 4)") auto
  with assms(2) have sb: "si \<le> 3155397659" by linarith
  have two: "length (substring timeStr 0 2) \<le> 2" "length (substring timeStr 2 4) \<le> 2"
    by (simp_all add: substring_def)
  show ?thesis
  proof (cases "parseInt (substring timeStr 0 2) = NaN \<or> parseInt (substring timeStr 2 4) = NaN")
    case True
    then have "ggaTime timeStr = InvalidDate"
      by (auto simp: ggaTime_def)
    then show ?thesis by (simp add: timeKeyOf_cases)
  next
    case False
    then obtain h m :: int where h: "parseInt (substring timeStr 0 2) = Fin (of_int h)" "h \<le> 99"
      and m: "parseInt (substring timeStr 2 4) = Fin (of_int m)" "m \<le> 99"
      using parseInt_two_chars [OF two(1)] parseInt_two_chars [OF two(2)] by auto
    define tv where "tv = - 25568 * 86400000 + (h * 3600000 + m * 60000 + si * 1000)"
    have utc: "dateUTC (Fin 0) (Fin 0) (Fin 0) (Fin (of_int h)) (Fin (of_int m)) (Fin (of_int si))
        = (if 8640000000000000 < \<bar>tv\<bar> then NaN else Fin (of_int tv))"
      by (simp add: tv_def toInteger_def makeDay_def makeTime_def dayFromYear_def
          inLeapYear_def monthStart_def Let_def)
    have tvb: "tv \<le> 946684799000"
      using h(2) m(2) sb by (simp add: tv_def)
    show ?thesis
    proof (cases "8640000000000000 < \<bar>tv\<bar>")
      case True
      with utc h m si assms(1) have "ggaTime timeStr = InvalidDate"
        by (simp add: ggaTime_def)
      then show ?thesis by (simp add: timeKeyOf_cases)
    next
      case False
      then have "\<not> 8640000000000000 < \<bar>real_of_int tv\<bar>"
        by (metis of_int_abs of_int_less_iff of_int_numeral)
      with False utc h m si assms(1) have "ggaTime timeStr = DateMs tv"
        by (simp add: ggaTime_def toInteger_def)
      moreover have "tv div 1000 < 946684800"
        using tvb by linarith
      ultimately show ?thesis
        by (simp add: timeKeyOf_cases year2000Sec_def)
    qed
  qed
qed

lemma floor_seconds_120000:
  "num_floor (parseFloat (substringFrom ''120000.00'' 4)) = Fin 0"
  by (simp add: parse_eval)

section \<open>The claims\<close>

text \<open>
  C1. The two-line file of the claim: \<open>rmcLine\<close>, then a GGA sentence of the same second
  with altitude field 100.0, speed filter \<^verbatim>\<open>none\<close> and both bounds empty. The claim
  expects one \<^verbatim>\<open>trkpt\<close> with \<^verbatim>\<open><ele>100.00</ele>\<close>. The program returns the
  document below: one \<^verbatim>\<open>trkpt\<close> with the expected coordinates and time and no
  \<^verbatim>\<open>ele\<close> element, because the GGA key is taken on 1899-12-31 and the RMC key on
  2025-01-01.
\<close>

theorem C1_two_line_file_has_no_ele:
  \<open>convertToGpx dateParse twoLineFile ''none'' [] [] =
     Inr (gpxHeader
          @ ''  <trkpt lat="35.500000" lon="139.500000">'' @ [CHR 0x0A]
          @ ''    <time>2025-01-01T12:00:00.000Z</time>'' @ [CHR 0x0A]
          @ ''  </trkpt>'' @ [CHR 0x0A]
          @ gpxFooter)\<close>
  by (simp add: convertToGpx_def lines_twoLineFile combine_twoLineFile sort_single bounds_empty
      trkpt_def print_fixPoint)

text \<open>
  C2, as stated: in a file whose valid RMC sentences have date fields of the years 2000
  to 2099, no combined point has an altitude and the GPX has no \<^verbatim>\<open>ele\<close> element. The
  seconds part of a GGA time field is not bounded: with hours 00, minutes 00 and seconds
  3944808000 the GGA key, counted from 1899-12-31, is the key of the RMC fix of
  2025-01-01T12:00:00Z. The combined point then has the altitude 100 and the GPX has
  \<^verbatim>\<open><ele>100.00</ele>\<close>.
\<close>

theorem C2_late_gga_counterexample:
  \<open>num_add (Fin 2000) (parseInt (substring ''010125'' 4 6)) = Fin 2025
   \<and> combinePoints (mergeLines (js_split (CHR 0x0A) lateFile)) = [fixPointAlt]
   \<and> alt fixPointAlt = Some (Fin 100)
   \<and> convertToGpx noDateParse lateFile ''none'' [] [] =
     Inr (gpxHeader
          @ ''  <trkpt lat="35.500000" lon="139.500000">'' @ [CHR 0x0A]
          @ ''    <ele>100.00</ele>'' @ [CHR 0x0A]
          @ ''    <time>2025-01-01T12:00:00.000Z</time>'' @ [CHR 0x0A]
          @ ''  </trkpt>'' @ [CHR 0x0A]
          @ gpxFooter)\<close>
  by (simp add: convertToGpx_def lines_lateFile combine_lateFile sort_single bounds_empty
      trkpt_def print_fixPointAlt parse_eval, simp add: fixPointAlt_def)

text \<open>
  C2, amended: take a file in which every valid RMC fix has a key at or after the first
  second of the year 2000, and every GGA record a key that is NaN or before it. Then no
  combined point has an altitude, and a GPX document that the conversion returns holds
  no \<^verbatim>\<open><ele>\<close>. The condition on a GGA record holds as soon as the seconds part of
  its time field, rounded down, is below 3155397660, so for every time field of the form
  HHMMSS.
\<close>

theorem C2_no_altitude_when_keys_apart:
  assumes "\<forall>line \<in> set (js_split (CHR 0x0A) fileContent). \<forall>k d. fixOf line = Some (k, d)
             \<longrightarrow> (\<exists>s. k = Fin s \<and> year2000Sec \<le> s)"
      and "\<forall>line \<in> set (js_split (CHR 0x0A) fileContent). \<forall>k a. altOf line = Some (k, a)
             \<longrightarrow> k = NaN \<or> (\<exists>s. k = Fin s \<and> s < year2000Sec)"
  shows
    "(\<forall>p \<in> set (combinePoints (mergeLines (js_split (CHR 0x0A) fileContent))). alt p = None)
     \<and> (\<forall>xml. convertToGpx dateParse fileContent speedFilterType startTimeStr endTimeStr
                 = Inr xml
              \<longrightarrow> \<not> sublist ''<ele>'' xml)
     \<and> (\<forall>timeStr s. num_floor (parseFloat (substringFrom timeStr 4)) = Fin s
                      \<and> s < 3155397660
              \<longrightarrow> timeKeyOf (ggaTime timeStr) = NaN
                  \<or> (\<exists>k. timeKeyOf (ggaTime timeStr) = Fin k \<and> k < year2000Sec))"
proof -
  let ?combined = "combinePoints (mergeLines (js_split (CHR 0x0A) fileContent))"
  let ?s = "parseJstToUtc dateParse startTimeStr"
  let ?e = "parseJstToUtc dateParse endTimeStr"
  let ?filtered = "filterLoop ?s ?e (maxSpeedOf speedFilterType) None (sortByTime ?combined)"
  have none: "\<forall>p \<in> set ?combined. alt p = None"
    using no_altitude_when_keys_apart [OF assms] by blast
  have "\<not> sublist ''<ele>'' xml"
    if "convertToGpx dateParse fileContent speedFilterType startTimeStr endTimeStr = Inr xml"
    for xml
  proof -
    from that obtain gpxXml where w: "writePoints gpxHeader ?filtered = Inr gpxXml"
      and xml: "xml = gpxXml @ gpxFooter"
      by (auto simp: convertToGpx_def Let_def split: if_splits sum.splits)
    have "set ?filtered \<subseteq> set ?combined"
      using filterLoop_subset [of ?s ?e "maxSpeedOf speedFilterType" None "sortByTime ?combined"]
      by (auto simp: sort_keeps_points)
    with none have "\<forall>p \<in> set ?filtered. alt p = None"
      by blast
    with w have "noEleStart gpxXml"
      using noEleStart_writePoints noEleStart_pieces by blast
    then have "noEleStart xml"
      unfolding xml by (intro noEleStart_append noEleStart_pieces)
    then show ?thesis by (rule noEleStart_no_ele)
  qed
  with none ggaTime_key_before_2000 show ?thesis by blast
qed

text \<open>The witness: the two-line file of C1. Its RMC key is 1735732800, its GGA key is
  -2209032000, and the seconds part of its GGA time field is 0.\<close>

theorem C2_witness:
  "fixOf rmcLine
     = Some (Fin 1735732800, Rmc ''Valid'' (DateMs 1735732800000) (Fin 35.5) (Fin 139.5))
   \<and> altOf ggaLine = Some (Fin (- 2209032000), Fin 100)
   \<and> year2000Sec = 946684800
   \<and> alt fixPoint = None
   \<and> combinePoints (mergeLines (js_split (CHR 0x0A) twoLineFile)) = [fixPoint]
   \<and> (\<exists>xml. convertToGpx noDateParse twoLineFile ''none'' [] [] = Inr xml
             \<and> \<not> sublist ''<ele>'' xml)
   \<and> (\<exists>k. timeKeyOf (ggaTime ''120000.00'') = Fin k \<and> k < year2000Sec)"
proof -
  have h1: "\<forall>line \<in> set (js_split (CHR 0x0A) twoLineFile). \<forall>k d. fixOf line = Some (k, d)
             \<longrightarrow> (\<exists>s. k = Fin s \<and> year2000Sec \<le> s)"
    by (simp add: lines_twoLineFile fixOf_others fixOf_rmcLine year2000Sec_def)
  have h2: "\<forall>line \<in> set (js_split (CHR 0x0A) twoLineFile). \<forall>k a. altOf line = Some (k, a)
             \<longrightarrow> k = NaN \<or> (\<exists>s. k = Fin s \<and> s < year2000Sec)"
    by (simp add: lines_twoLineFile altOf_others altOf_ggaLine year2000Sec_def)
  note main = C2_no_altitude_when_keys_apart [OF h1 h2, of noDateParse "''none''" "[]" "[]"]
  obtain xml where xml: "convertToGpx noDateParse twoLineFile ''none'' [] [] = Inr xml"
    by (simp add: convertToGpx_def lines_twoLineFile combine_twoLineFile sort_single
        bounds_empty trkpt_def print_fixPoint)
  with main have "\<not> sublist ''<ele>'' xml"
    by blast
  with xml have a: "\<exists>xml. convertToGpx noDateParse twoLineFile ''none'' [] [] = Inr xml
             \<and> \<not> sublist ''<ele>'' xml"
    by blast
  from main floor_seconds_120000
  have b: "timeKeyOf (ggaTime ''120000.00'') = NaN
      \<or> (\<exists>k. timeKeyOf (ggaTime ''120000.00'') = Fin k \<and> k < year2000Sec)"
    by (metis less_numeral_extra(3) not_numeral_less_zero zero_less_numeral)
  have c: "timeKeyOf (ggaTime ''120000.00'') \<noteq> NaN"
    by (simp add: ggaTime_120000 timeKeyOf_cases)
  from a b c show ?thesis
    by (simp add: fixOf_rmcLine altOf_ggaLine year2000Sec_def print_fixPoint fixPoint_def
        lines_twoLineFile combine_twoLineFile [unfolded fixPoint_def])
qed

text \<open>
  C3. The claim allows two errors only and has every decode failure skipped. An RMC
  sentence with status A and a time field that is not numeric is not skipped: its point
  carries an invalid date through the merge and the filters, and \<^verbatim>\<open>toISOString\<close>
  throws a RangeError out of the conversion.
\<close>

theorem C3_range_error_escapes:
  "convertToGpx dateParse rmcBadTime ''none'' [] [] = Inl RangeError"
  by (simp add: convertToGpx_def lines_rmcBadTime combine_rmcBadTime sort_single bounds_empty
      badTimePoint_def)

text \<open>
  C4. The claim has \<^verbatim>\<open>parseNmeaCoordinate\<close> return \<^verbatim>\<open>null\<close> when the degrees or
  minutes do not parse. The program returns \<^verbatim>\<open>null\<close> for an empty argument only;
  for the coordinate text \<^verbatim>\<open>abc\<close> it returns the number NaN.
\<close>

theorem C4_unparsable_coordinate_is_NaN:
  "parseNmeaCoordinate ''abc'' ''N'' = Some NaN
   \<and> (\<forall>coordStr direction.
         (parseNmeaCoordinate coordStr direction = None) = (coordStr = [] \<or> direction = []))"
  using coordinate_null_iff coordinate_abc by simp

text \<open>
  C5. The example of the claim holds: time 123456.78 on date 010125 is
  2025-01-01T12:34:56Z, the fraction of the second dropped. The claim also has
  \<^verbatim>\<open>parseNmeaTime\<close> return no value for a field out of range or not numeric. The
  program returns a date for hour 25, one hour into the next day, and an invalid
  \<^verbatim>\<open>Date\<close> object, not \<^verbatim>\<open>null\<close>, for a time that is not numeric.
\<close>

theorem C5_time_fields_carry_over:
  "parseNmeaTime ''123456.78'' ''010125'' = Some (DateMs 1735734896000)
   \<and> toISOString (DateMs 1735734896000) = Inr ''2025-01-01T12:34:56.000Z''
   \<and> parseNmeaTime ''250000'' ''010125'' = Some (DateMs 1735779600000)
   \<and> toISOString (DateMs 1735779600000) = Inr ''2025-01-02T01:00:00.000Z''
   \<and> parseNmeaTime ''xx3456.78'' ''010125'' = Some InvalidDate"
  by (simp add: parseNmeaTime_def parse_eval date_eval toISOString.simps(2) civil_20089
      civil_20090 print_eval)

text \<open>
  C6. Under an active speed cap (10 or 100 km/h), take three points P0, P1, P2 that pass
  the time window, P1 later than P0, the speed from P0 to P1 above the cap and the speed
  from P0 to P2 not above it. The loop accepts P0, drops P1 and accepts P2: P2 is tested
  against P0, and nothing is asked of the speed from P1 to P2. And a point that passes
  the window is accepted whenever the time elapsed since the last accepted point is at
  most 0 or the distance from it is 0.
\<close>

theorem C6_rejection_keeps_anchor:
  assumes "maxSpeedKmh = Fin 10 \<or> maxSpeedKmh = Fin 100"
  shows
    "(\<not> beforeStart s P0 \<and> \<not> afterEnd e P0 \<and> \<not> beforeStart s P1 \<and> \<not> afterEnd e P1
      \<and> \<not> beforeStart s P2 \<and> \<not> afterEnd e P2
      \<and> num_gt (timeDiffSec P0 P1) (Fin 0)
      \<and> num_gt (speedKmh P0 P1) maxSpeedKmh
      \<and> \<not> num_gt (speedKmh P0 P2) maxSpeedKmh
      \<longrightarrow> filterLoop s e maxSpeedKmh None (P0 # P1 # P2 # rest)
            = P0 # P2 # filterLoop s e maxSpeedKmh (Some P2) rest)
     \<and> (\<not> beforeStart s p \<and> \<not> afterEnd e p
        \<and> ((\<exists>t. timeDiffSec a p = Fin t \<and> t \<le> 0) \<or> distanceKm a p = Fin 0)
        \<longrightarrow> filterLoop s e maxSpeedKmh (Some a) (p # rest)
              = p # filterLoop s e maxSpeedKmh (Some p) rest)"
proof (intro conjI impI)
  assume h: "\<not> beforeStart s P0 \<and> \<not> afterEnd e P0 \<and> \<not> beforeStart s P1 \<and> \<not> afterEnd e P1
      \<and> \<not> beforeStart s P2 \<and> \<not> afterEnd e P2
      \<and> num_gt (timeDiffSec P0 P1) (Fin 0)
      \<and> num_gt (speedKmh P0 P1) maxSpeedKmh
      \<and> \<not> num_gt (speedKmh P0 P2) maxSpeedKmh"
  then have "tooFast maxSpeedKmh (Some P0) P1"
    using assms rejected_when_too_fast by blast
  moreover from h have "\<not> tooFast maxSpeedKmh (Some P0) P2"
    by simp
  ultimately show "filterLoop s e maxSpeedKmh None (P0 # P1 # P2 # rest)
            = P0 # P2 # filterLoop s e maxSpeedKmh (Some P2) rest"
    using h by (simp del: tooFast.simps(2))
next
  assume h: "\<not> beforeStart s p \<and> \<not> afterEnd e p
        \<and> ((\<exists>t. timeDiffSec a p = Fin t \<and> t \<le> 0) \<or> distanceKm a p = Fin 0)"
  then have "\<not> tooFast maxSpeedKmh (Some a) p"
    using accepted_without_motion by blast
  with h show "filterLoop s e maxSpeedKmh (Some a) (p # rest)
              = p # filterLoop s e maxSpeedKmh (Some p) rest"
    by (simp del: tooFast.simps(2))
qed

text \<open>The witness: after the jump is dropped, the return to the start is accepted
  against the anchor, although against the jump it would be too fast as well.\<close>

theorem C6_witness:
  "num_gt (timeDiffSec anchorPoint jumpPoint) (Fin 0)
   \<and> num_gt (speedKmh anchorPoint jumpPoint) (Fin 10)
   \<and> \<not> num_gt (speedKmh anchorPoint backPoint) (Fin 10)
   \<and> num_gt (speedKmh jumpPoint backPoint) (Fin 10)
   \<and> distanceKm anchorPoint backPoint = Fin 0
   \<and> filterLoop None None (Fin 10) None [anchorPoint, jumpPoint, backPoint]
       = [anchorPoint, backPoint]
   \<and> filterLoop None None (Fin 10) (Some anchorPoint) [backPoint] = [backPoint]"
proof -
  have fast: "10 < 6371 * pi * 3600"
    using pi_ge_two by simp
  from C6_rejection_keeps_anchor [of "Fin 10" None anchorPoint None jumpPoint backPoint "[]"
      backPoint anchorPoint]
  show ?thesis
    using fast by (simp add: witness_speeds num_gt_def)
qed

text \<open>
  C7. Merging is idempotent under duplicate lines: a file made of a valid RMC line twice
  has the combined points of the file made of it once, a single point; and wherever the
  line stands twice in a file, \<^verbatim>\<open>rmcPoints\<close> has exactly one entry under the key of the
  line (the combined points are made one for each entry). When a key recurs, the later
  line wins, in both maps: after the whole file, the value under a key is the one written
  by the last line that writes this key. The keys of each map are distinct.
\<close>

theorem C7_duplicates_and_last_write_wins:
  "(fixOf line = Some (k, d) \<longrightarrow>
      combinePoints (mergeLines [line, line]) = combinePoints (mergeLines [line])
      \<and> length (combinePoints (mergeLines [line, line])) = 1
      \<and> length (filter (\<lambda>entry. fst entry = k)
                  (fst (mergeLines (xs @ line # ys @ line # zs)))) = 1)
   \<and> (fixOf line = Some (k, d) \<and> (\<forall>l \<in> set later. \<forall>d'. fixOf l \<noteq> Some (k, d'))
      \<longrightarrow> mapGet (fst (mergeLines (earlier @ line # later))) k = Some d)
   \<and> (altOf line = Some (k, a) \<and> (\<forall>l \<in> set later. \<forall>a'. altOf l \<noteq> Some (k, a'))
      \<longrightarrow> mapGet (snd (mergeLines (earlier @ line # later))) k = Some a)
   \<and> distinct (map fst (fst (mergeLines lines)))
   \<and> distinct (map fst (snd (mergeLines lines)))
   \<and> length (combinePoints (mergeLines lines)) = length (fst (mergeLines lines))"
proof -
  have dist: "distinct (map fst (fst (mergeLines ls))) \<and> distinct (map fst (snd (mergeLines ls)))"
    for ls
    unfolding mergeLines_def by (rule merge_distinct) simp
  have dup: "combinePoints (mergeLines [line, line]) = combinePoints (mergeLines [line])"
    by (simp add: mergeLines_def mergeStep_twice)
  have one: "length (combinePoints (mergeLines [line, line])) = 1" if "fixOf line = Some (k, d)"
    using that by (simp add: dup) (simp add: mergeLines_def mergeStep_writes combinePoints_def)
  have count: "length (filter (\<lambda>entry. fst entry = k)
                  (fst (mergeLines (xs @ line # ys @ line # zs)))) = 1"
    if "fixOf line = Some (k, d)"
  proof -
    have "k \<in> fst ` set (fst (mergeStep (foldl mergeStep ([], []) xs) line))"
      using that by (simp add: mergeStep_writes keys_mapSet)
    then have "k \<in> fst ` set (fst (mergeLines (xs @ line # ys @ line # zs)))"
      using merge_keeps_keys
        [of "mergeStep (foldl mergeStep ([], []) xs) line" "ys @ line # zs"]
      by (auto simp: mergeLines_def)
    with dist show ?thesis by (simp add: one_entry_per_key)
  qed
  have fixw: "mapGet (fst (mergeLines (earlier @ line # later))) k = Some d"
    if "fixOf line = Some (k, d)" "\<forall>l \<in> set later. \<forall>d'. fixOf l \<noteq> Some (k, d')"
    using that merge_fix_last_write [of later k "mergeStep (foldl mergeStep ([], []) earlier) line"]
    by (simp add: mergeLines_def) (simp add: mergeStep_writes mapGet_mapSet_same)
  have altw: "mapGet (snd (mergeLines (earlier @ line # later))) k = Some a"
    if "altOf line = Some (k, a)" "\<forall>l \<in> set later. \<forall>a'. altOf l \<noteq> Some (k, a')"
    using that merge_alt_last_write [of later k "mergeStep (foldl mergeStep ([], []) earlier) line"]
    by (simp add: mergeLines_def) (simp add: mergeStep_writes mapGet_mapSet_same)
  have len: "length (combinePoints (mergeLines lines)) = length (fst (mergeLines lines))"
    by (simp add: combinePoints_def)
  from dup one count fixw altw dist [of lines] len show ?thesis by blast
qed

text \<open>The witness: the valid RMC line twice, with other lines around; and the GGA line
  as the last writer of its key.\<close>

theorem C7_witness:
  "fixOf rmcLine
     = Some (Fin 1735732800, Rmc ''Valid'' (DateMs 1735732800000) (Fin 35.5) (Fin 139.5))
   \<and> length (combinePoints (mergeLines [rmcLine, rmcLine])) = 1
   \<and> length (filter (\<lambda>entry. fst entry = Fin 1735732800)
               (fst (mergeLines ([ggaLine] @ rmcLine # [rmcLineVoid] @ rmcLine # [ggaLine]))))
       = 1
   \<and> mapGet (fst (mergeLines ([rmcLine] @ rmcLine # [ggaLine]))) (Fin 1735732800)
       = Some (Rmc ''Valid'' (DateMs 1735732800000) (Fin 35.5) (Fin 139.5))
   \<and> mapGet (snd (mergeLines ([ggaLine] @ ggaLine # [rmcLine]))) (Fin (- 2209032000))
       = Some (Fin 100)"
  using C7_duplicates_and_last_write_wins [of rmcLine "Fin 1735732800"
      "Rmc ''Valid'' (DateMs 1735732800000) (Fin 35.5) (Fin 139.5)" "[ggaLine]" "[rmcLineVoid]"
      "[ggaLine]" "[ggaLine]" "[rmcLine]"]
    C7_duplicates_and_last_write_wins [of ggaLine "Fin (- 2209032000)" _ _ _ _ "[rmcLine]"
      "[ggaLine]" "Fin 100"]
  by (simp add: fixOf_rmcLine altOf_ggaLine fixOf_others altOf_others merge_rmcLine_once)

text \<open>
  C8, as stated: the time window keeps exactly the points with start \<open>\<le>\<close> time \<open>\<le>\<close>
  end. A point with an invalid date fails both comparisons of the program, so it is
  kept, although start \<open>\<le>\<close> time is false for it. Such a point comes out of the merge
  for \<open>rmcBadTime\<close>.
\<close>

theorem C8_invalid_time_counterexample:
  "combinePoints (mergeLines [rmcBadTime]) = [badTimePoint]
   \<and> parseJstToUtc oneDateParse ''2025-01-01 21:00:00'' = Some (DateMs 1735732800000)
   \<and> filterLoop (Some (DateMs 1735732800000)) None PInf None [badTimePoint] = [badTimePoint]
   \<and> \<not> spec_inWindow (Some (DateMs 1735732800000)) None badTimePoint"
  by (simp add: combine_rmcBadTime bound_oneDateParse times_of_points spec_inWindow_def)

text \<open>
  C8, amended: among points whose time is a valid instant, the time window keeps exactly
  those with start \<open>\<le>\<close> time \<open>\<le>\<close> end, each bound applied only when it is set. With no
  speed cap the filter loop returns exactly these points, in order; with any cap every
  point it returns is one of them. A point whose time equals the start is not dropped
  as too early, and one whose time equals the end is not dropped as too late.
\<close>

theorem C8_window_keeps_valid_points_in_bounds:
  assumes "\<forall>p \<in> set ps. time p \<noteq> InvalidDate"
  shows
    "filterLoop (parseJstToUtc dateParse startTimeStr) (parseJstToUtc dateParse endTimeStr)
         PInf None ps
       = filter (spec_inWindow (parseJstToUtc dateParse startTimeStr)
                   (parseJstToUtc dateParse endTimeStr)) ps
     \<and> (\<forall>p \<in> set (filterLoop (parseJstToUtc dateParse startTimeStr)
                     (parseJstToUtc dateParse endTimeStr) maxSpeedKmh lastPoint ps).
           spec_inWindow (parseJstToUtc dateParse startTimeStr)
             (parseJstToUtc dateParse endTimeStr) p)
     \<and> (\<forall>p \<in> set ps. \<forall>st. time p = st \<longrightarrow> \<not> beforeStart (Some st) p)
     \<and> (\<forall>p \<in> set ps. \<forall>en. time p = en \<longrightarrow> \<not> afterEnd (Some en) p)"
proof -
  let ?s = "parseJstToUtc dateParse startTimeStr"
  let ?e = "parseJstToUtc dateParse endTimeStr"
  have valid: "?s \<noteq> Some InvalidDate" "?e \<noteq> Some InvalidDate"
    using bound_is_valid by blast+
  have same: "(\<not> beforeStart ?s p \<and> \<not> afterEnd ?e p) = spec_inWindow ?s ?e p"
    if "p \<in> set ps" for p
    using that assms valid window_tests_as_specified by blast
  have "filterLoop ?s ?e PInf None ps = filter (spec_inWindow ?s ?e) ps"
    unfolding filterLoop_without_cap using same by (auto intro: filter_cong)
  moreover have "\<forall>p \<in> set (filterLoop ?s ?e maxSpeedKmh lastPoint ps). spec_inWindow ?s ?e p"
    using filterLoop_subset [of ?s ?e maxSpeedKmh lastPoint ps] same by blast
  moreover have "\<forall>p \<in> set ps. \<forall>st. time p = st \<longrightarrow> \<not> beforeStart (Some st) p"
    using assms by (auto; metis getTime.simps(2) jsdate.exhaust less_irrefl num_lt.simps(1))
  moreover have "\<forall>p \<in> set ps. \<forall>en. time p = en \<longrightarrow> \<not> afterEnd (Some en) p"
    using assms
    by (auto simp: num_gt_def; metis getTime.simps(2) jsdate.exhaust less_irrefl num_lt.simps(1))
  ultimately show ?thesis by blast
qed

text \<open>The witness: start and end are both 2025-01-01T12:00:00Z. The point of that very
  second is kept; the points one second before and one second after are dropped.\<close>

theorem C8_witness:
  "time earlyPoint \<noteq> InvalidDate \<and> time fixPoint \<noteq> InvalidDate
   \<and> time latePoint \<noteq> InvalidDate
   \<and> parseJstToUtc oneDateParse ''2025-01-01 21:00:00'' = Some (time fixPoint)
   \<and> filterLoop (parseJstToUtc oneDateParse ''2025-01-01 21:00:00'')
        (parseJstToUtc oneDateParse ''2025-01-01 21:00:00'') PInf None
        [earlyPoint, fixPoint, latePoint] = [fixPoint]"
proof -
  have v: "\<forall>p \<in> set [earlyPoint, fixPoint, latePoint]. time p \<noteq> InvalidDate"
    by (simp add: times_of_points)
  have eq: "filterLoop (parseJstToUtc oneDateParse ''2025-01-01 21:00:00'')
        (parseJstToUtc oneDateParse ''2025-01-01 21:00:00'') PInf None
        [earlyPoint, fixPoint, latePoint]
      = filter (spec_inWindow (parseJstToUtc oneDateParse ''2025-01-01 21:00:00'')
                  (parseJstToUtc oneDateParse ''2025-01-01 21:00:00''))
          [earlyPoint, fixPoint, latePoint]"
    using C8_window_keeps_valid_points_in_bounds [OF v, of oneDateParse
        "''2025-01-01 21:00:00''" "''2025-01-01 21:00:00''"]
    by (rule conjunct1)
  show ?thesis
    by (simp only: eq) (simp add: bound_oneDateParse times_of_points spec_inWindow_def)
qed

text \<open>
  C9. A line that is an RMC sentence with a status field other than A contributes no
  combined point: the merge step leaves both maps as they are, whatever the line decodes
  to, so the combined points of a file are those of the file without the line.
\<close>

theorem C9_status_not_A_contributes_nothing:
  "substringFrom (js_split CHR '','' (js_trim line) ! 0) 3 = ''RMC''
   \<and> js_split CHR '','' (js_trim line) ! 2 \<noteq> ''A''
   \<longrightarrow> mergeStep maps line = maps
       \<and> combinePoints (mergeLines (before @ line # after))
           = combinePoints (mergeLines (before @ after))"
  by (simp add: invalid_status_step mergeLines_def)

theorem C9_witness:
  "parseNmeaSentence (js_trim rmcLineVoid)
     = Some (Rmc ''Invalid'' (DateMs 1735732800000) (Fin 35.5) (Fin 139.5))
   \<and> js_split CHR '','' (js_trim rmcLineVoid) ! 2 = ''V''
   \<and> mergeStep ([], []) rmcLineVoid = ([], [])
   \<and> combinePoints (mergeLines ([rmcLine] @ rmcLineVoid # [ggaLine])) = [fixPoint]"
  using C9_status_not_A_contributes_nothing [of rmcLineVoid "([], [])" "[rmcLine]" "[ggaLine]"]
  by (simp add: trim_rmcLineVoid split_rmcLineVoid parse_rmcLineVoid substringFrom_def
      combine_twoLineFile)

text \<open>
  C10. A line yields a record only if the 4th to 6th characters of its first field are
  RMC or GGA and it has at least ten comma-separated fields; with another sentence type,
  or with fewer than ten fields, it yields no record.
\<close>

theorem C10_record_needs_type_and_ten_fields:
  "(parseNmeaSentence line = Some d \<longrightarrow>
      (substring (js_split CHR '','' line ! 0) 3 6 = ''RMC''
       \<or> substring (js_split CHR '','' line ! 0) 3 6 = ''GGA'')
      \<and> 10 \<le> length (js_split CHR '','' line))
   \<and> ((substring (js_split CHR '','' line ! 0) 3 6 \<noteq> ''RMC''
        \<and> substring (js_split CHR '','' line ! 0) 3 6 \<noteq> ''GGA'')
       \<or> length (js_split CHR '','' line) < 10
       \<longrightarrow> parseNmeaSentence line = None)"
proof -
  let ?parts = "js_split CHR '','' line"
  have rec: "(substring (?parts ! 0) 3 6 = ''RMC'' \<or> substring (?parts ! 0) 3 6 = ''GGA'')
      \<and> 10 \<le> length ?parts" if "parseNmeaSentence line = Some d'" for d'
  proof (cases "substringFrom (?parts ! 0) 3 = ''RMC''")
    case True
    with that have "10 \<le> length ?parts"
      by (simp add: parseNmeaSentence_def Let_def split: if_splits)
    with True show ?thesis by (simp add: substring_of_rest)
  next
    case False
    with that have g: "substringFrom (?parts ! 0) 3 = ''GGA''" and "10 \<le> length ?parts"
      by (simp_all add: parseNmeaSentence_def Let_def split: if_splits)
    then show ?thesis by (simp add: substring_of_rest)
  qed
  then show ?thesis by (cases "parseNmeaSentence line") auto
qed

theorem C10_witness:
  "parseNmeaSentence rmcLine = Some (Rmc ''Valid'' (DateMs 1735732800000) (Fin 35.5) (Fin 139.5))
   \<and> substring (js_split CHR '','' rmcLine ! 0) 3 6 = ''RMC''
   \<and> 10 \<le> length (js_split CHR '','' rmcLine)
   \<and> substring (js_split CHR '','' vtgLine ! 0) 3 6 \<noteq> ''RMC''
   \<and> substring (js_split CHR '','' vtgLine ! 0) 3 6 \<noteq> ''GGA''
   \<and> parseNmeaSentence vtgLine = None"
  using C10_record_needs_type_and_ten_fields
          [of rmcLine "Rmc ''Valid'' (DateMs 1735732800000) (Fin 35.5) (Fin 139.5)"]
    C10_record_needs_type_and_ten_fields [of vtgLine]
    parse_rmcLine
  by (simp add: split_vtgLine split_rmcLine substring_def)

end
